theory Spec2Isabelle
  imports Complex_Main "HOL-Library.Sublist"
begin

section \<open>JavaScript values and numbers\<close>

text \<open>
  A JavaScript number is a finite value, NaN or one of the two infinities. The request
  field \<open>amount\<close> is typed \<open>any\<close> in the controller, so it is kept as a tagged value.
  Finite values are exact rationals (see the store below).
\<close>

datatype jsnum = Fin rat | NaN | PosInf | NegInf

datatype jsval = JUndefined | JNull | JBool bool | JNum jsnum | JStr string | JObject

text \<open>\<open>Number.isFinite\<close>: true on finite numbers only, false on every value of another type.\<close>

fun Number_isFinite :: "jsval \<Rightarrow> bool" where
  "Number_isFinite (JNum (Fin r)) = True"
| "Number_isFinite v = False"

fun finite_value :: "jsval \<Rightarrow> rat" where
  "finite_value (JNum (Fin r)) = r"
| "finite_value v = 0"

text \<open>
  The first line of \<open>toNumber\<close>: a string goes through \<open>parseFloat\<close>, any other value is
  taken as it is. \<open>parseFloat\<close> is the language's own function and is a parameter here.
\<close>

definition numeric_value :: "(string \<Rightarrow> jsnum) \<Rightarrow> jsval \<Rightarrow> jsval" where
  "numeric_value parseFloat v = (case v of JStr s \<Rightarrow> JNum (parseFloat s) | _ \<Rightarrow> v)"

text \<open>
  The second line of \<open>toNumber\<close>, on values: \<open>n\<close> when \<open>Number.isFinite\<close> accepts
  it, the number 0 otherwise.
\<close>

definition toNumber_value :: "(string \<Rightarrow> jsnum) \<Rightarrow> jsval \<Rightarrow> jsval" where
  "toNumber_value parseFloat v =
     (let n = numeric_value parseFloat v
      in if Number_isFinite n then n else JNum (Fin 0))"

text \<open>The amount the handlers compute with: the finite number \<open>toNumber\<close> returned.\<close>

definition toNumber :: "(string \<Rightarrow> jsnum) \<Rightarrow> jsval \<Rightarrow> rat" where
  "toNumber parseFloat v = finite_value (toNumber_value parseFloat v)"

section \<open>Strings\<close>

text \<open>
  Strings are lists of code units below 256. \<open>trim\<close> removes white space and line
  terminators at both ends; \<open>\D+\<close> replaced by the empty string keeps the ASCII digits.
\<close>

definition isWhiteSpace :: "char \<Rightarrow> bool" where
  "isWhiteSpace c =
     (c \<in> {CHR 0x09, CHR 0x0A, CHR 0x0B, CHR 0x0C, CHR 0x0D, CHR 0x20, CHR 0xA0})"

definition trim :: "string \<Rightarrow> string" where
  "trim s = rev (dropWhile isWhiteSpace (rev (dropWhile isWhiteSpace s)))"

definition isDigit :: "char \<Rightarrow> bool" where
  "isDigit c = (c \<in> set ''0123456789'')"

definition digitsOnly :: "string \<Rightarrow> string" where
  "digitsOnly s = filter isDigit s"

text \<open>\<open>s.slice(-n)\<close>: the last \<open>n\<close> code units, the whole string when it is shorter.\<close>

definition slice_last :: "nat \<Rightarrow> string \<Rightarrow> string" where
  "slice_last n s = drop (length s - n) s"

definition endsWith :: "string \<Rightarrow> string \<Rightarrow> bool" where
  "endsWith s t = (length t \<le> length s \<and> drop (length s - length t) s = t)"

fun contains :: "string \<Rightarrow> string \<Rightarrow> bool" where
  "contains [] t = (t = [])"
| "contains (c # s) t = (take (length t) (c # s) = t \<or> contains s t)"

text \<open>\<open>v || d\<close> on an optional string: the default replaces a missing and an empty one.\<close>

definition str_or :: "string option \<Rightarrow> string \<Rightarrow> string" where
  "str_or v d = (case v of None \<Rightarrow> d | Some s \<Rightarrow> if s = [] then d else s)"

definition truthy :: "string option \<Rightarrow> bool" where
  "truthy v = (case v of None \<Rightarrow> False | Some s \<Rightarrow> s \<noteq> [])"

section \<open>Phone candidates\<close>

text \<open>\<open>Set.add\<close> keeps insertion order and ignores a value already present.\<close>

definition set_add :: "string \<Rightarrow> string list \<Rightarrow> string list" where
  "set_add x xs = (if x \<in> set xs then xs else xs @ [x])"

definition normalizePhoneCandidates :: "string \<Rightarrow> string list" where
  "normalizePhoneCandidates input =
     (if input = [] then []
      else
        let trimmed = trim input;
            digits = digitsOnly trimmed;
            c1 = set_add trimmed [];
            c2 = (if digits \<noteq> [] then set_add digits c1 else c1);
            c3 = (if digits \<noteq> [] then set_add (''+'' @ digits) c2 else c2)
        in if length digits = 10
           then set_add (''+1'' @ digits) (set_add (''1'' @ digits) c3)
           else c3)"

section \<open>The store\<close>

text \<open>
  Modelled from the spec: the schema of the store (the declarations of the user, wallet
  and transaction tables) is not among the sources. The fields are those the controller
  reads and writes. The data model of the specification calls balance and amount
  decimals, so they are exact rationals and increment and decrement are exact. A table
  is the list of its rows in the order the store returns them; identifiers are numbers.
\<close>

record user =
  u_id :: nat
  u_phone :: "string option"

record wallet =
  w_id :: nat
  w_userId :: nat
  w_balance :: rat
  w_currency :: string

record txn =
  t_amount :: rat
  t_currency :: string
  t_type :: string
  t_status :: string
  t_description :: string
  t_senderWalletId :: "nat option"
  t_senderUserId :: "nat option"
  t_receiverWalletId :: "nat option"
  t_receiverUserId :: "nat option"

record store =
  users :: "user list"
  wallets :: "wallet list"
  transactions :: "txn list"

record request_body =
  b_amount :: jsval
  b_currency :: "string option"
  b_description :: "string option"
  b_receiverPhone :: "string option"

datatype 'a response = Success nat 'a | Failure nat string

fun status :: "'a response \<Rightarrow> nat" where
  "status (Success c d) = c"
| "status (Failure c e) = c"

fun succeeded :: "'a response \<Rightarrow> bool" where
  "succeeded (Success c d) = True"
| "succeeded (Failure c e) = False"

subsection \<open>Queries of the object-relational mapper\<close>

definition user_findUnique :: "nat \<Rightarrow> user list \<Rightarrow> user option" where
  "user_findUnique i us = find (\<lambda>u. u_id u = i) us"

definition wallet_findUnique :: "nat \<Rightarrow> wallet list \<Rightarrow> wallet option" where
  "wallet_findUnique uid ws = find (\<lambda>w. w_userId w = uid) ws"

text \<open>The identifier the store gives a new wallet: one no wallet has.\<close>

fun fresh_id :: "wallet list \<Rightarrow> nat" where
  "fresh_id [] = 0"
| "fresh_id (w # ws) = max (Suc (w_id w)) (fresh_id ws)"

text \<open>\<open>wallet.create\<close> fails on a user who has a wallet (the user column is unique).\<close>

definition wallet_create :: "store \<Rightarrow> nat \<Rightarrow> rat \<Rightarrow> string \<Rightarrow> (wallet \<times> store) option" where
  "wallet_create st uid b cur =
     (if list_ex (\<lambda>w. w_userId w = uid) (wallets st) then None
      else
        let w = \<lparr> w_id = fresh_id (wallets st), w_userId = uid, w_balance = b, w_currency = cur \<rparr>
        in Some (w, st \<lparr> wallets := wallets st @ [w] \<rparr>))"

definition apply_balance :: "nat \<Rightarrow> (rat \<Rightarrow> rat) \<Rightarrow> wallet \<Rightarrow> wallet" where
  "apply_balance i f w = (if w_id w = i then w \<lparr> w_balance := f (w_balance w) \<rparr> else w)"

text \<open>\<open>wallet.update\<close> by identifier fails when no wallet has it, and returns the new row.\<close>

definition wallet_update :: "store \<Rightarrow> nat \<Rightarrow> (rat \<Rightarrow> rat) \<Rightarrow> (wallet \<times> store) option" where
  "wallet_update st i f =
     (case find (\<lambda>w. w_id w = i) (wallets st) of
        None \<Rightarrow> None
      | Some w \<Rightarrow> Some (apply_balance i f w, st \<lparr> wallets := map (apply_balance i f) (wallets st) \<rparr>))"

text \<open>\<open>wallet.upsert\<close> by user: update the wallet found, create one otherwise.\<close>

definition wallet_upsert :: "store \<Rightarrow> nat \<Rightarrow> (rat \<Rightarrow> rat) \<Rightarrow> rat \<Rightarrow> string \<Rightarrow> (wallet \<times> store) option" where
  "wallet_upsert st uid f b cur =
     (case wallet_findUnique uid (wallets st) of
        Some w \<Rightarrow> wallet_update st (w_id w) f
      | None \<Rightarrow> wallet_create st uid b cur)"

definition transaction_create :: "store \<Rightarrow> txn \<Rightarrow> store" where
  "transaction_create st r = st \<lparr> transactions := transactions st @ [r] \<rparr>"

definition count_sent :: "nat \<Rightarrow> txn list \<Rightarrow> nat" where
  "count_sent uid ts = length (filter (\<lambda>r. t_senderUserId r = Some uid) ts)"

definition count_received :: "nat \<Rightarrow> txn list \<Rightarrow> nat" where
  "count_received uid ts = length (filter (\<lambda>r. t_receiverUserId r = Some uid) ts)"

section \<open>The controller\<close>

definition getWallet :: "store \<Rightarrow> nat \<Rightarrow> (wallet \<times> nat \<times> nat) response \<times> store" where
  "getWallet st userId =
     (case wallet_findUnique userId (wallets st) of
        Some w \<Rightarrow>
          (Success 200 (w, count_sent userId (transactions st),
                           count_received userId (transactions st)), st)
      | None \<Rightarrow>
          (case wallet_create st userId 1000 ''USD'' of
             None \<Rightarrow> (Failure 500 ''Failed to get wallet'', st)
           | Some (w, st1) \<Rightarrow>
               (Success 200 (w, count_sent userId (transactions st1),
                                count_received userId (transactions st1)), st1)))"

definition deposit ::
  "(string \<Rightarrow> jsnum) \<Rightarrow> store \<Rightarrow> nat \<Rightarrow> request_body \<Rightarrow> wallet response \<times> store" where
  "deposit parseFloat st userId body =
     (let amount = toNumber parseFloat (b_amount body);
          currency = str_or (b_currency body) ''USD''
      in if amount \<le> 0 then (Failure 400 ''Amount must be greater than 0'', st)
         else
           (case wallet_upsert st userId (\<lambda>b. b + amount) amount currency of
              None \<Rightarrow> (Failure 500 ''Failed to deposit'', st)
            | Some (w, st1) \<Rightarrow>
                (Success 201 w,
                 transaction_create st1
                   \<lparr> t_amount = amount, t_currency = currency, t_type = ''DEPOSIT'',
                     t_status = ''COMPLETED'',
                     t_description = str_or (b_description body) ''Deposit'',
                     t_senderWalletId = None, t_senderUserId = None,
                     t_receiverWalletId = Some (w_id w), t_receiverUserId = Some userId \<rparr>)))"

definition withdraw ::
  "(string \<Rightarrow> jsnum) \<Rightarrow> store \<Rightarrow> nat \<Rightarrow> request_body \<Rightarrow> wallet response \<times> store" where
  "withdraw parseFloat st userId body =
     (let amount = toNumber parseFloat (b_amount body);
          currency = str_or (b_currency body) ''USD''
      in if amount \<le> 0 then (Failure 400 ''Amount must be greater than 0'', st)
         else
           (case wallet_findUnique userId (wallets st) of
              None \<Rightarrow> (Failure 400 ''Insufficient funds'', st)
            | Some w \<Rightarrow>
                if w_balance w < amount then (Failure 400 ''Insufficient funds'', st)
                else
                  (case wallet_update st (w_id w) (\<lambda>b. b - amount) of
                     None \<Rightarrow> (Failure 500 ''Failed to withdraw'', st)
                   | Some (updated, st1) \<Rightarrow>
                       (Success 200 updated,
                        transaction_create st1
                          \<lparr> t_amount = amount, t_currency = currency, t_type = ''WITHDRAWAL'',
                            t_status = ''COMPLETED'',
                            t_description = str_or (b_description body) ''Withdrawal'',
                            t_senderWalletId = Some (w_id w), t_senderUserId = Some userId,
                            t_receiverWalletId = None, t_receiverUserId = None \<rparr>))))"

subsection \<open>Transfer\<close>

text \<open>
  The filter of \<open>user.findFirst\<close>: the stored phone is one of the candidates, or, when the
  input has ten digits or more, it ends with or contains the last ten of them. A user
  without a phone matches nothing.
\<close>

definition last10_of :: "string \<Rightarrow> string option" where
  "last10_of receiverPhoneInput =
     (let digits = digitsOnly receiverPhoneInput
      in if 10 \<le> length digits then Some (slice_last 10 digits) else None)"

definition phone_matches :: "string list \<Rightarrow> string option \<Rightarrow> string option \<Rightarrow> bool" where
  "phone_matches candidates last10 stored =
     (case stored of
        None \<Rightarrow> False
      | Some p \<Rightarrow>
          p \<in> set candidates \<or>
          (case last10 of None \<Rightarrow> False | Some l \<Rightarrow> endsWith p l \<or> contains p l))"

definition resolveReceiver :: "string \<Rightarrow> user list \<Rightarrow> user option" where
  "resolveReceiver receiverPhoneInput us =
     find (\<lambda>u. phone_matches (normalizePhoneCandidates receiverPhoneInput)
                 (last10_of receiverPhoneInput) (u_phone u)) us"

text \<open>The receiver's wallet, created with balance 0 in the request's currency when absent.\<close>

definition receiverWallet :: "store \<Rightarrow> nat \<Rightarrow> string \<Rightarrow> (wallet \<times> store) option" where
  "receiverWallet st rid currency =
     (case wallet_findUnique rid (wallets st) of
        Some w \<Rightarrow> Some (w, st)
      | None \<Rightarrow> wallet_create st rid 0 currency)"

text \<open>The body of \<open>$transaction\<close>: two updates and one insert, or nothing when one fails.\<close>

definition transfer_tx ::
  "store \<Rightarrow> wallet \<Rightarrow> wallet \<Rightarrow> nat \<Rightarrow> nat \<Rightarrow> rat \<Rightarrow> string \<Rightarrow> string
     \<Rightarrow> ((wallet \<times> wallet \<times> txn) \<times> store) option" where
  "transfer_tx st senderWallet rw userId rid amount currency description =
     (case wallet_update st (w_id senderWallet) (\<lambda>b. b - amount) of
        None \<Rightarrow> None
      | Some (updatedSender, st1) \<Rightarrow>
          (case wallet_update st1 (w_id rw) (\<lambda>b. b + amount) of
             None \<Rightarrow> None
           | Some (updatedReceiver, st2) \<Rightarrow>
               (let txRecord =
                      \<lparr> t_amount = amount, t_currency = currency, t_type = ''TRANSFER'',
                        t_status = ''COMPLETED'', t_description = description,
                        t_senderWalletId = Some (w_id senderWallet),
                        t_senderUserId = Some userId,
                        t_receiverWalletId = Some (w_id rw),
                        t_receiverUserId = Some rid \<rparr>
                in Some ((updatedSender, updatedReceiver, txRecord),
                         transaction_create st2 txRecord))))"

definition sender_phone :: "user option \<Rightarrow> string option" where
  "sender_phone sender = (case sender of None \<Rightarrow> None | Some u \<Rightarrow> u_phone u)"

definition transfer ::
  "(string \<Rightarrow> jsnum) \<Rightarrow> store \<Rightarrow> nat \<Rightarrow> request_body
     \<Rightarrow> (wallet \<times> wallet \<times> txn) response \<times> store" where
  "transfer parseFloat st userId body =
     (let amount = toNumber parseFloat (b_amount body);
          currency = str_or (b_currency body) ''USD'';
          receiverPhoneInput = str_or (b_receiverPhone body) [];
          description = str_or (b_description body) ''Transfer''
      in if amount \<le> 0 then (Failure 400 ''Amount must be greater than 0'', st)
         else if receiverPhoneInput = []
         then (Failure 400 ''Receiver phone number is required'', st)
         else
           (let sender = user_findUnique userId (users st);
                senderWallet = wallet_findUnique userId (wallets st)
            in case resolveReceiver receiverPhoneInput (users st) of
                 None \<Rightarrow> (Failure 404 ''Receiver not found'', st)
               | Some receiverUser \<Rightarrow>
                   if truthy (sender_phone sender) \<and> truthy (u_phone receiverUser) \<and>
                      sender_phone sender = u_phone receiverUser
                   then (Failure 400 ''Cannot transfer to your own phone number'', st)
                   else
                     (case senderWallet of
                        None \<Rightarrow> (Failure 400 ''Insufficient funds'', st)
                      | Some sw \<Rightarrow>
                          if w_balance sw < amount
                          then (Failure 400 ''Insufficient funds'', st)
                          else
                            (case receiverWallet st (u_id receiverUser) currency of
                               None \<Rightarrow> (Failure 500 ''Failed to transfer'', st)
                             | Some (rw, st1) \<Rightarrow>
                                 (case transfer_tx st1 sw rw userId (u_id receiverUser)
                                         amount currency description of
                                    None \<Rightarrow> (Failure 500 ''Failed to transfer'', st1)
                                  | Some (result, st2) \<Rightarrow> (Success 200 result, st2))))))"

section \<open>Well-formed stores\<close>

text \<open>
  What the store itself guarantees: identifiers are primary keys and a user has at most
  one wallet.
\<close>

definition wf_store :: "store \<Rightarrow> bool" where
  "wf_store st =
     (distinct (map u_id (users st)) \<and> distinct (map w_id (wallets st)) \<and>
      distinct (map w_userId (wallets st)))"

definition nonneg :: "store \<Rightarrow> bool" where
  "nonneg st = list_all (\<lambda>w. 0 \<le> w_balance w) (wallets st)"

definition total :: "store \<Rightarrow> rat" where
  "total st = sum_list (map w_balance (wallets st))"

definition balance_of :: "store \<Rightarrow> nat \<Rightarrow> rat option" where
  "balance_of st uid = map_option w_balance (wallet_findUnique uid (wallets st))"

text \<open>
  What identifies a wallet and its currency, and the balances alone, in table order.
\<close>

definition wallet_keys :: "store \<Rightarrow> (nat \<times> nat \<times> string) list" where
  "wallet_keys st = map (\<lambda>w. (w_id w, w_userId w, w_currency w)) (wallets st)"

definition balances :: "store \<Rightarrow> rat list" where
  "balances st = map w_balance (wallets st)"

text \<open>The conditions under which transfer reaches the store-level transaction.\<close>

definition transfer_passes ::
  "(string \<Rightarrow> jsnum) \<Rightarrow> store \<Rightarrow> nat \<Rightarrow> request_body \<Rightarrow> user \<Rightarrow> wallet \<Rightarrow> bool" where
  "transfer_passes parseFloat st userId body receiverUser sw =
     (0 < toNumber parseFloat (b_amount body) \<and>
      resolveReceiver (str_or (b_receiverPhone body) []) (users st) = Some receiverUser \<and>
      \<not> (truthy (sender_phone (user_findUnique userId (users st))) \<and>
         truthy (u_phone receiverUser) \<and>
         sender_phone (user_findUnique userId (users st)) = u_phone receiverUser) \<and>
      wallet_findUnique userId (wallets st) = Some sw \<and>
      toNumber parseFloat (b_amount body) \<le> w_balance sw)"


section \<open>A concrete store and requests\<close>

text \<open>
  \<open>parseFloat\<close> on the strings used below: it reads the longest numeric prefix of a
  string, so \<open>12abc\<close> is read as 12, and gives NaN when there is none.
\<close>

definition ex_parseFloat :: "string \<Rightarrow> jsnum" where
  "ex_parseFloat s =
     (if s = ''250.5'' then Fin (501 / 2) else if s = ''12abc'' then Fin 12 else NaN)"

definition ex_store :: store where
  "ex_store =
     \<lparr> users = [\<lparr> u_id = 11, u_phone = Some ''+15550100'' \<rparr>,
                \<lparr> u_id = 12, u_phone = Some ''4155550100'' \<rparr>,
                \<lparr> u_id = 13, u_phone = None \<rparr>],
       wallets = [\<lparr> w_id = 0, w_userId = 11, w_balance = 1000, w_currency = ''USD'' \<rparr>],
       transactions = [] \<rparr>"

definition ex_body :: "jsval \<Rightarrow> string \<Rightarrow> request_body" where
  "ex_body a p = \<lparr> b_amount = a, b_currency = Some ''EUR'', b_description = None,
                  b_receiverPhone = Some p \<rparr>"

definition ex_store_blank :: store where
  "ex_store_blank =
     \<lparr> users = [\<lparr> u_id = 21, u_phone = Some [] \<rparr>],
       wallets = [\<lparr> w_id = 0, w_userId = 21, w_balance = 1000, w_currency = ''USD'' \<rparr>],
       transactions = [] \<rparr>"

section \<open>Facts about the store\<close>

lemma apply_balance_fields [simp]:
  "w_id (apply_balance i f w) = w_id w"
  "w_userId (apply_balance i f w) = w_userId w"
  "w_currency (apply_balance i f w) = w_currency w"
  by (simp_all add: apply_balance_def)

lemma apply_balance_other: "w_id w \<noteq> i \<Longrightarrow> apply_balance i f w = w"
  by (simp add: apply_balance_def)

lemma apply_balance_comp [simp]:
  "w_id \<circ> apply_balance i f = w_id"
  "w_userId \<circ> apply_balance i f = w_userId"
  "w_currency \<circ> apply_balance i f = w_currency"
  by (simp_all add: fun_eq_iff)

lemma apply_balance_comp2 [simp]:
  "w_id \<circ> (apply_balance i f \<circ> g) = w_id \<circ> g"
  "w_userId \<circ> (apply_balance i f \<circ> g) = w_userId \<circ> g"
  "w_currency \<circ> (apply_balance i f \<circ> g) = w_currency \<circ> g"
  by (simp_all add: fun_eq_iff)

lemma map_apply_balance_fields [simp]:
  "map w_id (map (apply_balance i f) ws) = map w_id ws"
  "map w_userId (map (apply_balance i f) ws) = map w_userId ws"
  "map w_currency (map (apply_balance i f) ws) = map w_currency ws"
  by (induction ws) simp_all

lemma find_by_id_apply:
  "find (\<lambda>w. w_id w = j) (map (apply_balance i f) ws)
     = map_option (apply_balance i f) (find (\<lambda>w. w_id w = j) ws)"
  by (induction ws) simp_all

lemma findUnique_apply:
  "wallet_findUnique u (map (apply_balance i f) ws)
     = map_option (apply_balance i f) (wallet_findUnique u ws)"
  unfolding wallet_findUnique_def by (induction ws) simp_all

lemma findUnique_SomeD:
  "wallet_findUnique u ws = Some w \<Longrightarrow> w \<in> set ws \<and> w_userId w = u"
  unfolding wallet_findUnique_def by (induction ws) (auto split: if_splits)

lemma findUnique_None: "wallet_findUnique u ws = None \<longleftrightarrow> u \<notin> set (map w_userId ws)"
  unfolding wallet_findUnique_def by (induction ws) auto

lemma findUnique_append:
  "wallet_findUnique u (ws @ [w]) =
     (case wallet_findUnique u ws of Some x \<Rightarrow> Some x
      | None \<Rightarrow> if w_userId w = u then Some w else None)"
  unfolding wallet_findUnique_def by (induction ws) simp_all

lemma find_by_id_in: "w \<in> set ws \<Longrightarrow> find (\<lambda>x. w_id x = w_id w) ws \<noteq> None"
  by (induction ws) auto

lemma find_by_id_distinct:
  "distinct (map w_id ws) \<Longrightarrow> w \<in> set ws \<Longrightarrow> find (\<lambda>x. w_id x = w_id w) ws = Some w"
  by (induction ws) (auto simp: image_iff)

lemma fresh_id_gt: "w \<in> set ws \<Longrightarrow> w_id w < fresh_id ws"
  by (induction ws) auto

lemma fresh_id_notin: "fresh_id ws \<notin> set (map w_id ws)"
  using fresh_id_gt by fastforce

lemma same_id_same_wallet:
  "distinct (map w_id ws) \<Longrightarrow> x \<in> set ws \<Longrightarrow> y \<in> set ws \<Longrightarrow> w_id x = w_id y \<Longrightarrow> x = y"
  by (meson distinct_map inj_onD)

lemma sum_apply_balance:
  "distinct (map w_id ws) \<Longrightarrow> w \<in> set ws \<Longrightarrow>
     sum_list (map w_balance (map (apply_balance (w_id w) f) ws))
       = sum_list (map w_balance ws) - w_balance w + f (w_balance w)"
proof (induction ws)
  case Nil
  then show ?case by simp
next
  case (Cons x ws)
  show ?case
  proof (cases "x = w")
    case True
    then have "w_id w \<notin> set (map w_id ws)" using Cons.prems by simp
    then have "map (apply_balance (w_id w) f) ws = ws"
      by (induction ws) (auto simp: apply_balance_def)
    then have "sum_list (map w_balance (map (apply_balance (w_id w) f) ws))
                 = sum_list (map w_balance ws)"
      by simp
    moreover have "w_balance (apply_balance (w_id w) f x) = f (w_balance w)"
      using True by (simp add: apply_balance_def)
    ultimately show ?thesis using True by simp
  next
    case False
    then have "w \<in> set ws" and "w_id x \<noteq> w_id w" using Cons.prems by (auto simp: image_iff)
    then have "sum_list (map w_balance (map (apply_balance (w_id w) f) ws))
                 = sum_list (map w_balance ws) - w_balance w + f (w_balance w)"
      using Cons by simp
    moreover have "apply_balance (w_id w) f x = x"
      using \<open>w_id x \<noteq> w_id w\<close> by (simp add: apply_balance_def)
    ultimately show ?thesis by simp
  qed
qed

lemma nonneg_apply_incr:
  "list_all (\<lambda>w. 0 \<le> w_balance w) ws \<Longrightarrow> 0 \<le> a \<Longrightarrow>
     list_all (\<lambda>w. 0 \<le> w_balance w) (map (apply_balance i (\<lambda>b. b + a)) ws)"
  by (induction ws) (auto simp: apply_balance_def)

lemma nonneg_apply_decr:
  "list_all (\<lambda>w. 0 \<le> w_balance w) ws \<Longrightarrow> distinct (map w_id ws) \<Longrightarrow> w \<in> set ws \<Longrightarrow>
     a \<le> w_balance w \<Longrightarrow>
     list_all (\<lambda>w. 0 \<le> w_balance w) (map (apply_balance (w_id w) (\<lambda>b. b - a)) ws)"
proof -
  assume nn: "list_all (\<lambda>w. 0 \<le> w_balance w) ws" and d: "distinct (map w_id ws)"
    and w: "w \<in> set ws" and a: "a \<le> w_balance w"
  have "0 \<le> w_balance (apply_balance (w_id w) (\<lambda>b. b - a) x)" if "x \<in> set ws" for x
  proof (cases "w_id x = w_id w")
    case True
    then have "x = w" using same_id_same_wallet [OF d that w] by simp
    then show ?thesis using a by (simp add: apply_balance_def)
  next
    case False
    then show ?thesis using nn that by (simp add: apply_balance_def list_all_iff)
  qed
  then show ?thesis by (simp add: list_all_iff)
qed

lemma wallet_update_in:
  "w \<in> set (wallets st) \<Longrightarrow> distinct (map w_id (wallets st)) \<Longrightarrow>
     wallet_update st (w_id w) f
       = Some (apply_balance (w_id w) f w,
               st \<lparr> wallets := map (apply_balance (w_id w) f) (wallets st) \<rparr>)"
  by (simp add: wallet_update_def find_by_id_distinct)

lemma wallet_create_absent:
  "wallet_findUnique uid (wallets st) = None \<Longrightarrow>
     wallet_create st uid b cur
       = Some (\<lparr> w_id = fresh_id (wallets st), w_userId = uid, w_balance = b, w_currency = cur \<rparr>,
               st \<lparr> wallets := wallets st @
                  [\<lparr> w_id = fresh_id (wallets st), w_userId = uid, w_balance = b, w_currency = cur \<rparr>] \<rparr>)"
  by (auto simp: wallet_create_def findUnique_None list_ex_iff Let_def)

lemma wf_store_apply [simp]:
  "wf_store (st \<lparr> wallets := map (apply_balance i f) (wallets st) \<rparr>) = wf_store st"
  by (simp add: wf_store_def)

lemma wf_store_txn [simp]: "wf_store (transaction_create st r) = wf_store st"
  by (simp add: wf_store_def transaction_create_def)

lemma nonneg_txn [simp]: "nonneg (transaction_create st r) = nonneg st"
  by (simp add: nonneg_def transaction_create_def)

lemma wallets_txn [simp]: "wallets (transaction_create st r) = wallets st"
  by (simp add: transaction_create_def)

lemma users_txn [simp]: "users (transaction_create st r) = users st"
  by (simp add: transaction_create_def)

lemma wf_store_new_wallet:
  "wf_store st \<Longrightarrow> wallet_findUnique uid (wallets st) = None \<Longrightarrow>
     wf_store (st \<lparr> wallets := wallets st @
        [\<lparr> w_id = fresh_id (wallets st), w_userId = uid, w_balance = b, w_currency = cur \<rparr>] \<rparr>)"
  using fresh_id_notin [of "wallets st"] by (simp add: wf_store_def findUnique_None)

lemma nonneg_new_wallet:
  "nonneg st \<Longrightarrow> 0 \<le> b \<Longrightarrow>
     nonneg (st \<lparr> wallets := wallets st @
        [\<lparr> w_id = i, w_userId = uid, w_balance = b, w_currency = cur \<rparr>] \<rparr>)"
  by (simp add: nonneg_def)

lemma getWallet_inv:
  assumes "wf_store st" and "nonneg st"
  shows "wf_store (snd (getWallet st userId)) \<and> nonneg (snd (getWallet st userId))"
proof (cases "wallet_findUnique userId (wallets st)")
  case None
  then show ?thesis
    using assms wf_store_new_wallet [OF assms(1) None] nonneg_new_wallet [OF assms(2)]
    by (simp add: getWallet_def wallet_create_absent [OF None])
next
  case (Some w)
  then show ?thesis using assms by (simp add: getWallet_def)
qed

lemma deposit_inv:
  assumes "wf_store st" and "nonneg st"
  shows "wf_store (snd (deposit parseFloat st userId body)) \<and>
         nonneg (snd (deposit parseFloat st userId body))"
proof (cases "toNumber parseFloat (b_amount body) \<le> 0")
  case True
  then show ?thesis using assms by (simp add: deposit_def Let_def)
next
  case pos: False
  show ?thesis
  proof (cases "wallet_findUnique userId (wallets st)")
    case None
    then show ?thesis
      using pos assms wf_store_new_wallet [OF assms(1) None] nonneg_new_wallet [OF assms(2)]
      by (simp add: deposit_def Let_def wallet_upsert_def wallet_create_absent [OF None])
  next
    case (Some w)
    then have w: "w \<in> set (wallets st)" by (simp add: findUnique_SomeD)
    have d: "distinct (map w_id (wallets st))" using assms(1) by (simp add: wf_store_def)
    have "nonneg (st \<lparr> wallets := map (apply_balance (w_id w)
             (\<lambda>b. b + toNumber parseFloat (b_amount body))) (wallets st) \<rparr>)"
      using assms(2) pos by (simp add: nonneg_def nonneg_apply_incr)
    then show ?thesis
      using pos assms Some
      by (simp add: deposit_def Let_def wallet_upsert_def wallet_update_in [OF w d])
  qed
qed

lemma withdraw_inv:
  assumes "wf_store st" and "nonneg st"
  shows "wf_store (snd (withdraw parseFloat st userId body)) \<and>
         nonneg (snd (withdraw parseFloat st userId body))"
proof (cases "wallet_findUnique userId (wallets st)")
  case None
  then show ?thesis using assms by (simp add: withdraw_def Let_def)
next
  case (Some w)
  then have w: "w \<in> set (wallets st)" by (simp add: findUnique_SomeD)
  have d: "distinct (map w_id (wallets st))" using assms(1) by (simp add: wf_store_def)
  show ?thesis
  proof (cases "toNumber parseFloat (b_amount body) \<le> 0 \<or>
                w_balance w < toNumber parseFloat (b_amount body)")
    case True
    then show ?thesis using assms Some by (auto simp: withdraw_def Let_def)
  next
    case False
    then have "nonneg (st \<lparr> wallets := map (apply_balance (w_id w)
             (\<lambda>b. b - toNumber parseFloat (b_amount body))) (wallets st) \<rparr>)"
      using assms(2) nonneg_apply_decr [OF _ d w, of "toNumber parseFloat (b_amount body)"]
      by (simp add: nonneg_def)
    then show ?thesis
      using False assms Some
      by (simp add: withdraw_def Let_def wallet_update_in [OF w d])
  qed
qed

lemma receiverWallet_present:
  "wallet_findUnique rid (wallets st) = Some w \<Longrightarrow> receiverWallet st rid cur = Some (w, st)"
  by (simp add: receiverWallet_def)

lemma receiverWallet_absent:
  "wallet_findUnique rid (wallets st) = None \<Longrightarrow>
     receiverWallet st rid cur
       = Some (\<lparr> w_id = fresh_id (wallets st), w_userId = rid, w_balance = 0, w_currency = cur \<rparr>,
               st \<lparr> wallets := wallets st @
                  [\<lparr> w_id = fresh_id (wallets st), w_userId = rid, w_balance = 0, w_currency = cur \<rparr>] \<rparr>)"
  by (simp add: receiverWallet_def wallet_create_absent)

lemma receiverWallet_props:
  assumes "wf_store st"
  obtains rw st1 where "receiverWallet st rid cur = Some (rw, st1)"
    and "wf_store st1" and "rw \<in> set (wallets st1)" and "w_userId rw = rid"
    and "nonneg st \<Longrightarrow> nonneg st1" and "total st1 = total st"
    and "users st1 = users st" and "transactions st1 = transactions st"
    and "set (wallets st) \<subseteq> set (wallets st1)"
    and "w_balance rw = (case balance_of st rid of None \<Rightarrow> 0 | Some b \<Rightarrow> b)"
    and "map (\<lambda>w. (w_id w, w_userId w, w_currency w)) (wallets st1)
           = map (\<lambda>w. (w_id w, w_userId w, w_currency w)) (wallets st) @
             (case wallet_findUnique rid (wallets st) of Some x \<Rightarrow> []
              | None \<Rightarrow> [(fresh_id (wallets st), rid, cur)])"
proof (cases "wallet_findUnique rid (wallets st)")
  case None
  let ?w = "\<lparr> w_id = fresh_id (wallets st), w_userId = rid, w_balance = 0, w_currency = cur \<rparr>"
  let ?st = "st \<lparr> wallets := wallets st @ [?w] \<rparr>"
  show ?thesis
  proof (rule that [of ?w ?st])
    show "receiverWallet st rid cur = Some (?w, ?st)" by (rule receiverWallet_absent [OF None])
    show "wf_store ?st" by (rule wf_store_new_wallet [OF assms None])
    show "nonneg st \<Longrightarrow> nonneg ?st" by (simp add: nonneg_new_wallet)
  qed (auto simp: total_def balance_of_def None)
next
  case (Some w)
  show ?thesis
  proof (rule that [of w st])
    show "receiverWallet st rid cur = Some (w, st)" by (rule receiverWallet_present [OF Some])
  qed (use Some assms in \<open>simp_all add: findUnique_SomeD balance_of_def\<close>)
qed

section \<open>Amount validation\<close>

text \<open>
  C3. For every amount \<open>a \<le> 0\<close>, deposit, withdraw and transfer each answer 400 with the
  invalid-amount message and return the store as it was: no balance changes, no wallet
  is created and no transaction record is appended.
\<close>

theorem invalid_amount_rejected:
  "toNumber parseFloat (b_amount body) \<le> 0 \<Longrightarrow>
     deposit parseFloat st userId body = (Failure 400 ''Amount must be greater than 0'', st) \<and>
     withdraw parseFloat st userId body = (Failure 400 ''Amount must be greater than 0'', st) \<and>
     transfer parseFloat st userId body = (Failure 400 ''Amount must be greater than 0'', st)"
  by (simp add: deposit_def withdraw_def transfer_def Let_def)

theorem invalid_amount_rejected_witness:
  "toNumber ex_parseFloat (b_amount (ex_body (JNum (Fin (- 5))) ''4155550100'')) \<le> 0 \<and>
   deposit ex_parseFloat ex_store 11 (ex_body (JNum (Fin (- 5))) ''4155550100'')
     = (Failure 400 ''Amount must be greater than 0'', ex_store) \<and>
   withdraw ex_parseFloat ex_store 11 (ex_body (JNum (Fin (- 5))) ''4155550100'')
     = (Failure 400 ''Amount must be greater than 0'', ex_store) \<and>
   transfer ex_parseFloat ex_store 11 (ex_body (JNum (Fin (- 5))) ''4155550100'')
     = (Failure 400 ''Amount must be greater than 0'', ex_store)"
proof -
  have h: "toNumber ex_parseFloat (b_amount (ex_body (JNum (Fin (- 5))) ''4155550100'')) \<le> 0"
    by (simp add: toNumber_def toNumber_value_def numeric_value_def ex_body_def)
  show ?thesis using h invalid_amount_rejected [OF h] by blast
qed

lemma toNumber_not_finite:
  "\<not> Number_isFinite (numeric_value parseFloat v) \<Longrightarrow>
     toNumber_value parseFloat v = JNum (Fin 0) \<and> toNumber parseFloat v = 0"
  by (simp add: toNumber_def toNumber_value_def)

lemma toNumber_value_finite: "\<exists>r. toNumber_value parseFloat v = JNum (Fin r)"
  by (cases "numeric_value parseFloat v" rule: Number_isFinite.cases)
     (simp_all add: toNumber_value_def)

lemma toNumber_numeric_string:
  "parseFloat s = Fin r \<Longrightarrow>
     toNumber_value parseFloat (JStr s) = JNum (Fin r) \<and> toNumber parseFloat (JStr s) = r"
  by (simp add: toNumber_def toNumber_value_def numeric_value_def)

lemma Number_isFinite_numeric_value:
  "Number_isFinite (numeric_value parseFloat v) \<longleftrightarrow>
     (\<exists>r. v = JNum (Fin r)) \<or> (\<exists>s r. v = JStr s \<and> parseFloat s = Fin r)"
  by (cases v rule: Number_isFinite.cases)
     (auto simp: numeric_value_def elim: Number_isFinite.elims)

text \<open>
  C9 (as amended). \<open>toNumber\<close> always returns a finite number. When the amount field
  is neither a finite number nor a string that \<open>parseFloat\<close> reads as a finite number
  (it is missing, null, NaN, an infinity, a string without a numeric prefix, ...), the
  amount is 0, and deposit, withdraw and transfer answer 400 with the invalid-amount
  message and return the store as it was. A string that \<open>parseFloat\<close> reads as a
  finite number is taken at that value.
\<close>

theorem non_finite_amount_rejected:
  "(\<exists>r. toNumber_value parseFloat v = JNum (Fin r)) \<and>
   (parseFloat s = Fin q \<longrightarrow>
      toNumber_value parseFloat (JStr s) = JNum (Fin q) \<and> toNumber parseFloat (JStr s) = q) \<and>
   ((\<forall>r. b_amount body \<noteq> JNum (Fin r)) \<and>
    (\<forall>t r. b_amount body = JStr t \<longrightarrow> parseFloat t \<noteq> Fin r) \<longrightarrow>
      toNumber_value parseFloat (b_amount body) = JNum (Fin 0) \<and>
      toNumber parseFloat (b_amount body) = 0 \<and>
      deposit parseFloat st userId body = (Failure 400 ''Amount must be greater than 0'', st) \<and>
      withdraw parseFloat st userId body = (Failure 400 ''Amount must be greater than 0'', st) \<and>
      transfer parseFloat st userId body = (Failure 400 ''Amount must be greater than 0'', st))"
proof (intro conjI impI)
  show "\<exists>r. toNumber_value parseFloat v = JNum (Fin r)" by (rule toNumber_value_finite)
next
  assume "parseFloat s = Fin q"
  then show "toNumber_value parseFloat (JStr s) = JNum (Fin q)"
    and "toNumber parseFloat (JStr s) = q"
    by (simp_all add: toNumber_numeric_string)
next
  assume h: "(\<forall>r. b_amount body \<noteq> JNum (Fin r)) \<and>
    (\<forall>t r. b_amount body = JStr t \<longrightarrow> parseFloat t \<noteq> Fin r)"
  then have "\<not> Number_isFinite (numeric_value parseFloat (b_amount body))"
    by (auto simp: Number_isFinite_numeric_value)
  then have z: "toNumber_value parseFloat (b_amount body) = JNum (Fin 0)"
    "toNumber parseFloat (b_amount body) = 0"
    by (simp_all add: toNumber_not_finite)
  show "toNumber_value parseFloat (b_amount body) = JNum (Fin 0)"
    and "toNumber parseFloat (b_amount body) = 0" by (rule z)+
  show "deposit parseFloat st userId body = (Failure 400 ''Amount must be greater than 0'', st)"
    and "withdraw parseFloat st userId body = (Failure 400 ''Amount must be greater than 0'', st)"
    and "transfer parseFloat st userId body = (Failure 400 ''Amount must be greater than 0'', st)"
    by (simp_all add: z deposit_def withdraw_def transfer_def Let_def)
qed

section \<open>Transfer\<close>

lemma wallet_update_find:
  "find (\<lambda>w. w_id w = i) (wallets st) = Some w \<Longrightarrow>
     wallet_update st i f
       = Some (apply_balance i f w, st \<lparr> wallets := map (apply_balance i f) (wallets st) \<rparr>)"
  by (simp add: wallet_update_def)

lemma transfer_tx_result:
  assumes d: "distinct (map w_id (wallets st))"
    and sw: "sw \<in> set (wallets st)" and rw: "rw \<in> set (wallets st)"
  shows "transfer_tx st sw rw userId rid a cur descr =
     Some ((apply_balance (w_id sw) (\<lambda>b. b - a) sw,
            apply_balance (w_id rw) (\<lambda>b. b + a) (apply_balance (w_id sw) (\<lambda>b. b - a) rw),
            \<lparr> t_amount = a, t_currency = cur, t_type = ''TRANSFER'',
              t_status = ''COMPLETED'', t_description = descr,
              t_senderWalletId = Some (w_id sw), t_senderUserId = Some userId,
              t_receiverWalletId = Some (w_id rw), t_receiverUserId = Some rid \<rparr>),
           transaction_create
             (st \<lparr> wallets := map (apply_balance (w_id rw) (\<lambda>b. b + a))
                                (map (apply_balance (w_id sw) (\<lambda>b. b - a)) (wallets st)) \<rparr>)
             \<lparr> t_amount = a, t_currency = cur, t_type = ''TRANSFER'',
               t_status = ''COMPLETED'', t_description = descr,
               t_senderWalletId = Some (w_id sw), t_senderUserId = Some userId,
               t_receiverWalletId = Some (w_id rw), t_receiverUserId = Some rid \<rparr>)"
proof -
  have 1: "wallet_update st (w_id sw) (\<lambda>b. b - a)
             = Some (apply_balance (w_id sw) (\<lambda>b. b - a) sw,
                     st \<lparr> wallets := map (apply_balance (w_id sw) (\<lambda>b. b - a)) (wallets st) \<rparr>)"
    by (rule wallet_update_in [OF sw d])
  let ?st = "st \<lparr> wallets := map (apply_balance (w_id sw) (\<lambda>b. b - a)) (wallets st) \<rparr>"
  have "find (\<lambda>w. w_id w = w_id rw) (wallets ?st)
             = Some (apply_balance (w_id sw) (\<lambda>b. b - a) rw)"
    by (simp add: find_by_id_apply find_by_id_distinct [OF d rw])
  then have 2: "wallet_update ?st (w_id rw) (\<lambda>b. b + a)
             = Some (apply_balance (w_id rw) (\<lambda>b. b + a) (apply_balance (w_id sw) (\<lambda>b. b - a) rw),
                     ?st \<lparr> wallets := map (apply_balance (w_id rw) (\<lambda>b. b + a)) (wallets ?st) \<rparr>)"
    by (rule wallet_update_find)
  show ?thesis
    unfolding transfer_tx_def 1 by (simp add: 2 Let_def)
qed

lemma resolveReceiver_empty: "resolveReceiver [] us = None"
  by (induction us)
     (simp_all add: resolveReceiver_def normalizePhoneCandidates_def last10_of_def
        digitsOnly_def phone_matches_def split: option.splits)

lemma transfer_unchanged:
  "\<not> (\<exists>receiverUser sw. transfer_passes parseFloat st userId body receiverUser sw) \<Longrightarrow>
     snd (transfer parseFloat st userId body) = st"
  by (auto simp: transfer_def transfer_passes_def Let_def split: option.splits)

lemma transfer_passes_eq:
  assumes p: "transfer_passes parseFloat st userId body receiverUser sw"
    and r: "receiverWallet st (u_id receiverUser) (str_or (b_currency body) ''USD'') = Some (rw, st1)"
    and d: "distinct (map w_id (wallets st1))"
    and sw: "sw \<in> set (wallets st1)" and rw: "rw \<in> set (wallets st1)"
  shows "transfer parseFloat st userId body =
     (Success 200
        (apply_balance (w_id sw) (\<lambda>b. b - toNumber parseFloat (b_amount body)) sw,
         apply_balance (w_id rw) (\<lambda>b. b + toNumber parseFloat (b_amount body))
           (apply_balance (w_id sw) (\<lambda>b. b - toNumber parseFloat (b_amount body)) rw),
         \<lparr> t_amount = toNumber parseFloat (b_amount body),
           t_currency = str_or (b_currency body) ''USD'', t_type = ''TRANSFER'',
           t_status = ''COMPLETED'', t_description = str_or (b_description body) ''Transfer'',
           t_senderWalletId = Some (w_id sw), t_senderUserId = Some userId,
           t_receiverWalletId = Some (w_id rw), t_receiverUserId = Some (u_id receiverUser) \<rparr>),
      transaction_create
        (st1 \<lparr> wallets :=
                 map (apply_balance (w_id rw) (\<lambda>b. b + toNumber parseFloat (b_amount body)))
                   (map (apply_balance (w_id sw) (\<lambda>b. b - toNumber parseFloat (b_amount body)))
                      (wallets st1)) \<rparr>)
        \<lparr> t_amount = toNumber parseFloat (b_amount body),
          t_currency = str_or (b_currency body) ''USD'', t_type = ''TRANSFER'',
          t_status = ''COMPLETED'', t_description = str_or (b_description body) ''Transfer'',
          t_senderWalletId = Some (w_id sw), t_senderUserId = Some userId,
          t_receiverWalletId = Some (w_id rw), t_receiverUserId = Some (u_id receiverUser) \<rparr>)"
proof -
  have ne: "str_or (b_receiverPhone body) [] \<noteq> []"
    using p resolveReceiver_empty [of "users st"] by (auto simp: transfer_passes_def)
  have a: "\<not> toNumber parseFloat (b_amount body) \<le> 0"
    and b: "\<not> w_balance sw < toNumber parseFloat (b_amount body)"
    using p by (auto simp: transfer_passes_def)
  have res: "resolveReceiver (str_or (b_receiverPhone body) []) (users st) = Some receiverUser"
    and self: "\<not> (truthy (sender_phone (user_findUnique userId (users st))) \<and>
         truthy (u_phone receiverUser) \<and>
         sender_phone (user_findUnique userId (users st)) = u_phone receiverUser)"
    and fw: "wallet_findUnique userId (wallets st) = Some sw"
    using p by (simp_all add: transfer_passes_def)
  show ?thesis
    unfolding transfer_def Let_def
    using self by (simp add: a b ne res fw r transfer_tx_result [OF d sw rw])
qed

lemma transfer_inv:
  assumes wf: "wf_store st" and nn: "nonneg st"
  shows "wf_store (snd (transfer parseFloat st userId body)) \<and>
         nonneg (snd (transfer parseFloat st userId body))"
proof (cases "\<exists>receiverUser sw. transfer_passes parseFloat st userId body receiverUser sw")
  case False
  then show ?thesis using wf nn by (simp add: transfer_unchanged)
next
  case True
  then obtain receiverUser sw where p: "transfer_passes parseFloat st userId body receiverUser sw"
    by blast
  let ?a = "toNumber parseFloat (b_amount body)"
  have sw0: "sw \<in> set (wallets st)" and le: "?a \<le> w_balance sw" and pos: "0 < ?a"
    using p by (auto simp: transfer_passes_def dest: findUnique_SomeD)
  show ?thesis
  proof (rule receiverWallet_props [OF wf, of "u_id receiverUser" "str_or (b_currency body) ''USD''"])
    fix rw st1
    assume r: "receiverWallet st (u_id receiverUser) (str_or (b_currency body) ''USD'') = Some (rw, st1)"
      and wf1: "wf_store st1" and rw: "rw \<in> set (wallets st1)"
      and nn1: "nonneg st \<Longrightarrow> nonneg st1" and sub: "set (wallets st) \<subseteq> set (wallets st1)"
    have d: "distinct (map w_id (wallets st1))" using wf1 by (simp add: wf_store_def)
    have sw: "sw \<in> set (wallets st1)" using sw0 sub by blast
    have "list_all (\<lambda>w. 0 \<le> w_balance w) (wallets st1)"
      using nn1 [OF nn] by (simp add: nonneg_def)
    then have "list_all (\<lambda>w. 0 \<le> w_balance w)
                 (map (apply_balance (w_id sw) (\<lambda>b. b - ?a)) (wallets st1))"
      by (rule nonneg_apply_decr [OF _ d sw le])
    then have "list_all (\<lambda>w. 0 \<le> w_balance w)
                 (map (apply_balance (w_id rw) (\<lambda>b. b + ?a))
                    (map (apply_balance (w_id sw) (\<lambda>b. b - ?a)) (wallets st1)))"
      using pos by (intro nonneg_apply_incr) simp_all
    then have "nonneg (snd (transfer parseFloat st userId body))"
      unfolding transfer_passes_eq [OF p r d sw rw] by (simp add: nonneg_def)
    moreover have "wf_store (snd (transfer parseFloat st userId body))"
      unfolding transfer_passes_eq [OF p r d sw rw] using wf1 by (simp add: wf_store_def)
    ultimately show ?thesis by simp
  qed
qed

text \<open>
  C2. Every operation of the ledger keeps all balances non-negative: from a well-formed
  store in which every wallet's balance is at least 0, getWallet, deposit, withdraw and
  transfer each give a store that is well-formed again and has no negative balance.
\<close>

theorem balances_stay_nonneg:
  assumes "wf_store st" and "nonneg st"
  shows "(wf_store (snd (getWallet st userId)) \<and> nonneg (snd (getWallet st userId))) \<and>
         (wf_store (snd (deposit parseFloat st userId body)) \<and>
          nonneg (snd (deposit parseFloat st userId body))) \<and>
         (wf_store (snd (withdraw parseFloat st userId body)) \<and>
          nonneg (snd (withdraw parseFloat st userId body))) \<and>
         (wf_store (snd (transfer parseFloat st userId body)) \<and>
          nonneg (snd (transfer parseFloat st userId body)))"
  using getWallet_inv [OF assms] deposit_inv [OF assms] withdraw_inv [OF assms]
    transfer_inv [OF assms]
  by blast

lemma findUnique_distinct:
  "distinct (map w_userId ws) \<Longrightarrow> w \<in> set ws \<Longrightarrow> wallet_findUnique (w_userId w) ws = Some w"
  unfolding wallet_findUnique_def by (induction ws) (auto simp: image_iff)

lemma user_findUnique_distinct:
  "distinct (map u_id us) \<Longrightarrow> u \<in> set us \<Longrightarrow> user_findUnique (u_id u) us = Some u"
  unfolding user_findUnique_def by (induction us) (auto simp: image_iff)

lemma resolveReceiver_SomeD:
  "resolveReceiver input us = Some r \<Longrightarrow>
     r \<in> set us \<and> phone_matches (normalizePhoneCandidates input) (last10_of input) (u_phone r)"
  unfolding resolveReceiver_def by (induction us) (auto split: if_splits)

lemma phone_matches_Some: "phone_matches cs l p \<Longrightarrow> \<exists>s. p = Some s"
  by (cases p) (simp_all add: phone_matches_def)

lemma in_map_apply_other:
  "w \<in> set ws \<Longrightarrow> w_id w \<noteq> i \<Longrightarrow> w \<in> set (map (apply_balance i f) ws)"
  using apply_balance_other [of w i f] by (metis image_eqI set_map)

text \<open>
  C1. A transfer of amount \<open>t > 0\<close> whose recipient resolves to a user with a phone
  different from the sender's, from a sender whose wallet holds at least \<open>t\<close>, succeeds:
  the sender's balance goes down by exactly \<open>t\<close>, the receiver's balance (0 when the
  wallet did not exist) goes up by exactly \<open>t\<close>, exactly one transaction record is
  appended, of type TRANSFER, status COMPLETED and with both sides set, and the sum of
  all wallet balances is unchanged.
\<close>

theorem transfer_moves_amount:
  assumes wf: "wf_store st"
    and pos: "0 < toNumber parseFloat (b_amount body)"
    and res: "resolveReceiver (str_or (b_receiverPhone body) []) (users st) = Some receiverUser"
    and phones: "sender_phone (user_findUnique userId (users st)) \<noteq> u_phone receiverUser"
    and fw: "wallet_findUnique userId (wallets st) = Some sw"
    and funds: "toNumber parseFloat (b_amount body) \<le> w_balance sw"
  shows "\<exists>updatedSender updatedReceiver txRecord st'.
     transfer parseFloat st userId body
       = (Success 200 (updatedSender, updatedReceiver, txRecord), st') \<and>
     w_balance updatedSender = w_balance sw - toNumber parseFloat (b_amount body) \<and>
     balance_of st' userId = Some (w_balance sw - toNumber parseFloat (b_amount body)) \<and>
     w_balance updatedReceiver
       = (case balance_of st (u_id receiverUser) of None \<Rightarrow> 0 | Some b \<Rightarrow> b)
         + toNumber parseFloat (b_amount body) \<and>
     balance_of st' (u_id receiverUser)
       = Some ((case balance_of st (u_id receiverUser) of None \<Rightarrow> 0 | Some b \<Rightarrow> b)
               + toNumber parseFloat (b_amount body)) \<and>
     transactions st' = transactions st @ [txRecord] \<and>
     t_type txRecord = ''TRANSFER'' \<and> t_status txRecord = ''COMPLETED'' \<and>
     t_amount txRecord = toNumber parseFloat (b_amount body) \<and>
     t_senderUserId txRecord = Some userId \<and>
     t_senderWalletId txRecord = Some (w_id sw) \<and>
     t_receiverUserId txRecord = Some (u_id receiverUser) \<and>
     t_receiverWalletId txRecord = Some (w_id updatedReceiver) \<and>
     w_userId updatedSender = userId \<and> w_userId updatedReceiver = u_id receiverUser \<and>
     total st' = total st \<and> users st' = users st"
proof -
  let ?a = "toNumber parseFloat (b_amount body)"
  let ?rid = "u_id receiverUser"
  let ?cur = "str_or (b_currency body) ''USD''"
  have p: "transfer_passes parseFloat st userId body receiverUser sw"
    using pos res phones fw funds by (simp add: transfer_passes_def)
  have ru: "receiverUser \<in> set (users st)" using res by (simp add: resolveReceiver_SomeD)
  have du: "distinct (map u_id (users st))" using wf by (simp add: wf_store_def)
  have ne_user: "userId \<noteq> ?rid"
  proof
    assume "userId = ?rid"
    then have "user_findUnique userId (users st) = Some receiverUser"
      using user_findUnique_distinct [OF du ru] by simp
    then show False using phones by (simp add: sender_phone_def)
  qed
  have sw0: "sw \<in> set (wallets st)" and swu: "w_userId sw = userId"
    using fw by (auto dest: findUnique_SomeD)
  show ?thesis
  proof (rule receiverWallet_props [OF wf, of ?rid ?cur])
    fix rw st1
    assume r: "receiverWallet st ?rid ?cur = Some (rw, st1)"
      and wf1: "wf_store st1" and rw: "rw \<in> set (wallets st1)" and rwu: "w_userId rw = ?rid"
      and tot: "total st1 = total st" and us: "users st1 = users st"
      and ts: "transactions st1 = transactions st"
      and sub: "set (wallets st) \<subseteq> set (wallets st1)"
      and rb: "w_balance rw = (case balance_of st ?rid of None \<Rightarrow> 0 | Some b \<Rightarrow> b)"
    have d: "distinct (map w_id (wallets st1))" and dU: "distinct (map w_userId (wallets st1))"
      using wf1 by (simp_all add: wf_store_def)
    have sw: "sw \<in> set (wallets st1)" using sw0 sub by blast
    have ne_id: "w_id sw \<noteq> w_id rw"
      using same_id_same_wallet [OF d sw rw] swu rwu ne_user by auto
    let ?dec = "apply_balance (w_id sw) (\<lambda>b. b - ?a)"
    let ?inc = "apply_balance (w_id rw) (\<lambda>b. b + ?a)"
    let ?rec = "\<lparr> t_amount = ?a, t_currency = ?cur, t_type = ''TRANSFER'',
          t_status = ''COMPLETED'', t_description = str_or (b_description body) ''Transfer'',
          t_senderWalletId = Some (w_id sw), t_senderUserId = Some userId,
          t_receiverWalletId = Some (w_id rw), t_receiverUserId = Some ?rid \<rparr>"
    let ?st' = "transaction_create (st1 \<lparr> wallets := map ?inc (map ?dec (wallets st1)) \<rparr>) ?rec"
    have eq: "transfer parseFloat st userId body = (Success 200 (?dec sw, ?inc (?dec rw), ?rec), ?st')"
      by (rule transfer_passes_eq [OF p r d sw rw])
    have f_s: "wallet_findUnique userId (wallets st1) = Some sw"
      using findUnique_distinct [OF dU sw] swu by simp
    have f_r: "wallet_findUnique ?rid (wallets st1) = Some rw"
      using findUnique_distinct [OF dU rw] rwu by simp
    have b_s: "w_balance (?inc (?dec sw)) = w_balance sw - ?a"
      using ne_id by (simp add: apply_balance_def)
    have b_r: "w_balance (?inc (?dec rw)) = w_balance rw + ?a"
      using ne_id by (simp add: apply_balance_def)
    have bal_s: "balance_of ?st' userId = Some (w_balance sw - ?a)"
      unfolding balance_of_def wallets_txn
      by (simp add: findUnique_apply f_s b_s del: map_map)
    have bal_r: "balance_of ?st' ?rid = Some (w_balance rw + ?a)"
      unfolding balance_of_def wallets_txn
      by (simp add: findUnique_apply f_r b_r del: map_map)
    have s1: "sum_list (map w_balance (map ?dec (wallets st1)))
                = sum_list (map w_balance (wallets st1)) - w_balance sw + (w_balance sw - ?a)"
      by (rule sum_apply_balance [OF d sw])
    have rw': "rw \<in> set (map ?dec (wallets st1))"
      using in_map_apply_other [OF rw] ne_id by simp
    have d': "distinct (map w_id (map ?dec (wallets st1)))"
      using d by (simp del: map_map)
    have s2: "sum_list (map w_balance (map ?inc (map ?dec (wallets st1))))
                = sum_list (map w_balance (map ?dec (wallets st1))) - w_balance rw + (w_balance rw + ?a)"
      by (rule sum_apply_balance [OF d' rw'])
    have "total ?st' = sum_list (map w_balance (map ?inc (map ?dec (wallets st1))))"
      unfolding total_def wallets_txn by simp
    also have "\<dots> = sum_list (map w_balance (wallets st1))"
      unfolding s2 s1 by simp
    finally have tot': "total ?st' = total st" using tot by (simp add: total_def)
    have tr: "transactions ?st' = transactions st @ [?rec]"
      using ts by (simp add: transaction_create_def)
    have us': "users ?st' = users st" using us by simp
    have c1: "w_balance (?dec sw) = w_balance sw - ?a" by (simp add: apply_balance_def)
    have c2: "w_id (?inc (?dec rw)) = w_id rw" by simp
    have c3: "w_userId (?dec sw) = userId" "w_userId (?inc (?dec rw)) = ?rid"
      using swu rwu by simp_all
    have r1: "w_balance (?inc (?dec rw))
                = (case balance_of st ?rid of None \<Rightarrow> 0 | Some b \<Rightarrow> b) + ?a"
      using b_r rb by simp
    have r2: "balance_of ?st' ?rid
                = Some ((case balance_of st ?rid of None \<Rightarrow> 0 | Some b \<Rightarrow> b) + ?a)"
      using bal_r rb by simp
    have c4: "t_receiverWalletId ?rec = Some (w_id (?inc (?dec rw)))" by simp
    show ?thesis
      apply (rule exI [of _ "?dec sw"])
      apply (rule exI [of _ "?inc (?dec rw)"])
      apply (rule exI [of _ ?rec])
      apply (rule exI [of _ ?st'])
      apply (intro conjI)
                      apply (rule eq)
                     apply (rule c1)
                    apply (rule bal_s)
                   apply (rule r1)
                  apply (rule r2)
                 apply (rule tr)
                apply simp
               apply simp
              apply simp
             apply simp
            apply simp
           apply simp
          apply (rule c4)
         apply (rule c3(1))
        apply (rule c3(2))
       apply (rule tot')
      apply (rule us')
      done
  qed
qed

section \<open>Evaluation on the concrete store\<close>

lemma ex_wf: "wf_store ex_store"
  by (simp add: wf_store_def ex_store_def)

lemma ex_nonneg: "nonneg ex_store"
  by (simp add: nonneg_def ex_store_def)

lemma ex_resolve:
  "resolveReceiver ''(415) 555-0100'' (users ex_store)
     = Some \<lparr> u_id = 12, u_phone = Some ''4155550100'' \<rparr>"
  by (simp add: resolveReceiver_def ex_store_def normalizePhoneCandidates_def trim_def
        digitsOnly_def isDigit_def isWhiteSpace_def set_add_def last10_of_def slice_last_def
        phone_matches_def endsWith_def Let_def)

lemma ex_amount: "toNumber ex_parseFloat (b_amount (ex_body (JNum (Fin a)) p)) = a"
  by (simp add: toNumber_def toNumber_value_def numeric_value_def ex_body_def)

lemma ex_phone: "p \<noteq> [] \<Longrightarrow> str_or (b_receiverPhone (ex_body a p)) [] = p"
  by (simp add: str_or_def ex_body_def)

lemma ex_sender_wallet:
  "wallet_findUnique 11 (wallets ex_store)
     = Some \<lparr> w_id = 0, w_userId = 11, w_balance = 1000, w_currency = ''USD'' \<rparr>"
  by (simp add: wallet_findUnique_def ex_store_def)

lemma ex_sender_phone:
  "sender_phone (user_findUnique 11 (users ex_store)) = Some ''+15550100''"
  by (simp add: sender_phone_def user_findUnique_def ex_store_def)

theorem transfer_moves_amount_witness:
  "wf_store ex_store \<and>
   0 < toNumber ex_parseFloat (b_amount (ex_body (JNum (Fin 300)) ''(415) 555-0100'')) \<and>
   resolveReceiver (str_or (b_receiverPhone (ex_body (JNum (Fin 300)) ''(415) 555-0100'')) [])
       (users ex_store) = Some \<lparr> u_id = 12, u_phone = Some ''4155550100'' \<rparr> \<and>
   sender_phone (user_findUnique 11 (users ex_store))
     \<noteq> u_phone \<lparr> u_id = 12, u_phone = Some ''4155550100'' \<rparr> \<and>
   wallet_findUnique 11 (wallets ex_store)
     = Some \<lparr> w_id = 0, w_userId = 11, w_balance = 1000, w_currency = ''USD'' \<rparr> \<and>
   toNumber ex_parseFloat (b_amount (ex_body (JNum (Fin 300)) ''(415) 555-0100''))
     \<le> w_balance \<lparr> w_id = 0, w_userId = 11, w_balance = 1000, w_currency = ''USD'' \<rparr> \<and>
   (\<exists>updatedSender updatedReceiver txRecord st'.
      transfer ex_parseFloat ex_store 11 (ex_body (JNum (Fin 300)) ''(415) 555-0100'')
        = (Success 200 (updatedSender, updatedReceiver, txRecord), st') \<and>
      w_balance updatedSender = 700 \<and> w_balance updatedReceiver = 300 \<and>
      balance_of st' 11 = Some 700 \<and> balance_of st' 12 = Some 300 \<and>
      transactions st' = [txRecord] \<and> total st' = 1000)"
proof -
  let ?b = "ex_body (JNum (Fin 300)) ''(415) 555-0100''"
  let ?r = "\<lparr> u_id = 12, u_phone = Some ''4155550100'' \<rparr>"
  let ?w = "\<lparr> w_id = 0, w_userId = 11, w_balance = 1000, w_currency = ''USD'' \<rparr>"
  have h1: "wf_store ex_store" by (rule ex_wf)
  have h2: "0 < toNumber ex_parseFloat (b_amount ?b)" by (simp add: ex_amount)
  have h3: "resolveReceiver (str_or (b_receiverPhone ?b) []) (users ex_store) = Some ?r"
    by (simp add: ex_phone ex_resolve)
  have h4: "sender_phone (user_findUnique 11 (users ex_store)) \<noteq> u_phone ?r"
    by (simp add: ex_sender_phone)
  have h5: "wallet_findUnique 11 (wallets ex_store) = Some ?w" by (rule ex_sender_wallet)
  have h6: "toNumber ex_parseFloat (b_amount ?b) \<le> w_balance ?w" by (simp add: ex_amount)
  have b2: "balance_of ex_store 12 = None"
    by (simp add: balance_of_def wallet_findUnique_def ex_store_def)
  have t0: "total ex_store = 1000" "transactions ex_store = []"
    by (simp_all add: total_def ex_store_def)
  from transfer_moves_amount [OF h1 h2 h3 h4 h5 h6]
  have "\<exists>updatedSender updatedReceiver txRecord st'.
      transfer ex_parseFloat ex_store 11 ?b
        = (Success 200 (updatedSender, updatedReceiver, txRecord), st') \<and>
      w_balance updatedSender = 700 \<and> w_balance updatedReceiver = 300 \<and>
      balance_of st' 11 = Some 700 \<and> balance_of st' 12 = Some 300 \<and>
      transactions st' = [txRecord] \<and> total st' = 1000"
    by (simp add: ex_amount b2 t0) blast
  with h1 h2 h3 h4 h5 h6 show ?thesis by blast
qed

theorem balances_stay_nonneg_witness:
  "wf_store ex_store \<and> nonneg ex_store \<and>
   nonneg (snd (getWallet ex_store 11)) \<and>
   nonneg (snd (deposit ex_parseFloat ex_store 11 (ex_body (JNum (Fin 300)) ''(415) 555-0100''))) \<and>
   nonneg (snd (withdraw ex_parseFloat ex_store 11 (ex_body (JNum (Fin 300)) ''(415) 555-0100''))) \<and>
   nonneg (snd (transfer ex_parseFloat ex_store 11 (ex_body (JNum (Fin 300)) ''(415) 555-0100'')))"
  using ex_wf ex_nonneg
    balances_stay_nonneg [OF ex_wf ex_nonneg, of 11 ex_parseFloat
      "ex_body (JNum (Fin 300)) ''(415) 555-0100''"]
  by blast

theorem non_finite_amount_rejected_witness:
  "b_amount (ex_body (JStr ''abc'') ''4155550100'') = JStr ''abc'' \<and>
   ex_parseFloat ''abc'' = NaN \<and>
   toNumber_value ex_parseFloat (b_amount (ex_body (JStr ''abc'') ''4155550100'')) = JNum (Fin 0) \<and>
   toNumber ex_parseFloat (b_amount (ex_body (JStr ''abc'') ''4155550100'')) = 0 \<and>
   deposit ex_parseFloat ex_store 11 (ex_body (JStr ''abc'') ''4155550100'')
     = (Failure 400 ''Amount must be greater than 0'', ex_store) \<and>
   withdraw ex_parseFloat ex_store 11 (ex_body (JStr ''abc'') ''4155550100'')
     = (Failure 400 ''Amount must be greater than 0'', ex_store) \<and>
   transfer ex_parseFloat ex_store 11 (ex_body (JStr ''abc'') ''4155550100'')
     = (Failure 400 ''Amount must be greater than 0'', ex_store) \<and>
   ex_parseFloat ''250.5'' = Fin (501 / 2) \<and>
   toNumber ex_parseFloat (JStr ''250.5'') = 501 / 2"
proof -
  let ?b = "ex_body (JStr ''abc'') ''4155550100''"
  have h1: "\<forall>r. b_amount ?b \<noteq> JNum (Fin r)" by (simp add: ex_body_def)
  have h2: "\<forall>t r. b_amount ?b = JStr t \<longrightarrow> ex_parseFloat t \<noteq> Fin r"
    by (simp add: ex_body_def ex_parseFloat_def)
  have h3: "b_amount ?b = JStr ''abc''" "ex_parseFloat ''abc'' = NaN"
    "ex_parseFloat ''250.5'' = Fin (501 / 2)"
    by (simp_all add: ex_body_def ex_parseFloat_def)
  show ?thesis
    using h1 h2 h3
      non_finite_amount_rejected [where parseFloat = ex_parseFloat and body = ?b
        and st = ex_store and userId = 11 and s = "''250.5''" and q = "501 / 2"]
    by blast
qed

text \<open>
  A string with a numeric prefix is not rejected: \<open>parseFloat\<close> reads \<open>12abc\<close> as 12,
  and the deposit of 12 goes through.
\<close>

theorem non_finite_amount_counterexample:
  "b_amount (ex_body (JStr ''12abc'') ''4155550100'') = JStr ''12abc'' \<and>
   ex_parseFloat ''12abc'' = Fin 12 \<and>
   toNumber ex_parseFloat (b_amount (ex_body (JStr ''12abc'') ''4155550100'')) = 12 \<and>
   deposit ex_parseFloat ex_store 11 (ex_body (JStr ''12abc'') ''4155550100'')
     = (Success 201 \<lparr> w_id = 0, w_userId = 11, w_balance = 1012, w_currency = ''USD'' \<rparr>,
        ex_store \<lparr> wallets :=
            [\<lparr> w_id = 0, w_userId = 11, w_balance = 1012, w_currency = ''USD'' \<rparr>],
          transactions :=
            [\<lparr> t_amount = 12, t_currency = ''EUR'', t_type = ''DEPOSIT'',
               t_status = ''COMPLETED'', t_description = ''Deposit'',
               t_senderWalletId = None, t_senderUserId = None,
               t_receiverWalletId = Some 0, t_receiverUserId = Some 11 \<rparr>] \<rparr>)"
  by (simp add: toNumber_def toNumber_value_def numeric_value_def ex_parseFloat_def
        ex_body_def deposit_def Let_def wallet_upsert_def wallet_update_def
        wallet_findUnique_def apply_balance_def transaction_create_def ex_store_def
        str_or_def)

section \<open>Rejections of transfer and withdraw\<close>

lemma resolveReceiver_None:
  "resolveReceiver input us = None \<longleftrightarrow>
     (\<forall>u \<in> set us. \<not> phone_matches (normalizePhoneCandidates input) (last10_of input) (u_phone u))"
  by (auto simp: resolveReceiver_def find_None_iff)

text \<open>
  C7 (as amended). A transfer with a positive amount and a non-empty receiver phone
  that matches no stored user, neither as a candidate nor by its last ten digits,
  answers 404 with the receiver-not-found message and returns the store as it was.
\<close>

theorem unknown_recipient_rejected:
  assumes "0 < toNumber parseFloat (b_amount body)"
    and "str_or (b_receiverPhone body) [] \<noteq> []"
    and "\<forall>u \<in> set (users st).
           \<not> phone_matches (normalizePhoneCandidates (str_or (b_receiverPhone body) []))
                (last10_of (str_or (b_receiverPhone body) [])) (u_phone u)"
  shows "transfer parseFloat st userId body = (Failure 404 ''Receiver not found'', st)"
proof -
  have "resolveReceiver (str_or (b_receiverPhone body) []) (users st) = None"
    using assms(3) by (simp add: resolveReceiver_None)
  moreover have "\<not> toNumber parseFloat (b_amount body) \<le> 0" using assms(1) by simp
  ultimately show ?thesis
    using assms(2) by (simp add: transfer_def Let_def)
qed

lemma ex_no_match:
  "\<forall>u \<in> set (users ex_store).
      \<not> phone_matches (normalizePhoneCandidates ''000'') (last10_of ''000'') (u_phone u)"
  by (simp add: ex_store_def normalizePhoneCandidates_def trim_def
        digitsOnly_def isDigit_def isWhiteSpace_def set_add_def last10_of_def slice_last_def
        phone_matches_def Let_def)

theorem unknown_recipient_rejected_witness:
  "0 < toNumber ex_parseFloat (b_amount (ex_body (JNum (Fin 50)) ''000'')) \<and>
   str_or (b_receiverPhone (ex_body (JNum (Fin 50)) ''000'')) [] \<noteq> [] \<and>
   list_all (\<lambda>u. \<not> phone_matches
          (normalizePhoneCandidates (str_or (b_receiverPhone (ex_body (JNum (Fin 50)) ''000'')) []))
          (last10_of (str_or (b_receiverPhone (ex_body (JNum (Fin 50)) ''000'')) [])) (u_phone u))
     (users ex_store) \<and>
   transfer ex_parseFloat ex_store 11 (ex_body (JNum (Fin 50)) ''000'')
     = (Failure 404 ''Receiver not found'', ex_store)"
proof -
  let ?b = "ex_body (JNum (Fin 50)) ''000''"
  have h1: "0 < toNumber ex_parseFloat (b_amount ?b)" by (simp add: ex_amount)
  have h2: "str_or (b_receiverPhone ?b) [] \<noteq> []" by (simp add: ex_phone)
  have h3: "\<forall>u \<in> set (users ex_store).
      \<not> phone_matches (normalizePhoneCandidates (str_or (b_receiverPhone ?b) []))
          (last10_of (str_or (b_receiverPhone ?b) [])) (u_phone u)"
    using ex_no_match by (simp add: ex_phone)
  show ?thesis
    using h1 h2 h3 unknown_recipient_rejected [OF h1 h2 h3, of 11]
    by (simp add: list_all_iff)
qed

text \<open>
  Without the two conditions the answer is another one: amount 0 is rejected as an
  invalid amount, and an empty phone as a missing recipient, both with status 400.
\<close>

theorem unknown_recipient_counterexample:
  "resolveReceiver ''000'' (users ex_store) = None \<and>
   transfer ex_parseFloat ex_store 11 (ex_body (JNum (Fin 0)) ''000'')
     = (Failure 400 ''Amount must be greater than 0'', ex_store) \<and>
   resolveReceiver [] (users ex_store) = None \<and>
   transfer ex_parseFloat ex_store 11 (ex_body (JNum (Fin 50)) [])
     = (Failure 400 ''Receiver phone number is required'', ex_store)"
proof -
  have "resolveReceiver ''000'' (users ex_store) = None"
    using ex_no_match by (simp add: resolveReceiver_None)
  moreover have "transfer ex_parseFloat ex_store 11 (ex_body (JNum (Fin 0)) ''000'')
     = (Failure 400 ''Amount must be greater than 0'', ex_store)"
    by (simp add: transfer_def Let_def ex_amount)
  moreover have "transfer ex_parseFloat ex_store 11 (ex_body (JNum (Fin 50)) [])
     = (Failure 400 ''Receiver phone number is required'', ex_store)"
    by (simp add: transfer_def Let_def ex_amount) (simp add: ex_body_def str_or_def)
  ultimately show ?thesis by (simp add: resolveReceiver_empty)
qed

text \<open>
  C6 (as amended). A transfer with a positive amount whose receiver phone resolves to a
  user with the same, non-empty stored phone number as the sender answers 400 with the
  own-phone message and returns the store as it was.
\<close>

theorem own_phone_rejected:
  assumes pos: "0 < toNumber parseFloat (b_amount body)"
    and res: "resolveReceiver (str_or (b_receiverPhone body) []) (users st) = Some receiverUser"
    and same: "sender_phone (user_findUnique userId (users st)) = u_phone receiverUser"
    and ne: "u_phone receiverUser \<noteq> Some []"
  shows "transfer parseFloat st userId body
           = (Failure 400 ''Cannot transfer to your own phone number'', st)"
proof -
  have inp: "str_or (b_receiverPhone body) [] \<noteq> []"
    using res resolveReceiver_empty [of "users st"] by auto
  obtain s where s: "u_phone receiverUser = Some s"
    using resolveReceiver_SomeD [OF res] phone_matches_Some by blast
  then have t: "truthy (u_phone receiverUser)" using ne by (simp add: truthy_def)
  have a: "\<not> toNumber parseFloat (b_amount body) \<le> 0" using pos by simp
  show ?thesis
    unfolding transfer_def Let_def using t same by (simp add: a inp res)
qed

theorem own_phone_rejected_witness:
  "0 < toNumber ex_parseFloat (b_amount (ex_body (JNum (Fin 50)) ''+15550100'')) \<and>
   resolveReceiver (str_or (b_receiverPhone (ex_body (JNum (Fin 50)) ''+15550100'')) [])
       (users ex_store) = Some \<lparr> u_id = 11, u_phone = Some ''+15550100'' \<rparr> \<and>
   sender_phone (user_findUnique 11 (users ex_store))
     = u_phone \<lparr> u_id = 11, u_phone = Some ''+15550100'' \<rparr> \<and>
   u_phone \<lparr> u_id = 11, u_phone = Some ''+15550100'' \<rparr> \<noteq> Some [] \<and>
   transfer ex_parseFloat ex_store 11 (ex_body (JNum (Fin 50)) ''+15550100'')
     = (Failure 400 ''Cannot transfer to your own phone number'', ex_store)"
proof -
  let ?b = "ex_body (JNum (Fin 50)) ''+15550100''"
  let ?r = "\<lparr> u_id = 11, u_phone = Some ''+15550100'' \<rparr>"
  have h1: "0 < toNumber ex_parseFloat (b_amount ?b)" by (simp add: ex_amount)
  have h2: "resolveReceiver (str_or (b_receiverPhone ?b) []) (users ex_store) = Some ?r"
    by (simp add: ex_phone resolveReceiver_def ex_store_def normalizePhoneCandidates_def
          trim_def digitsOnly_def isDigit_def isWhiteSpace_def set_add_def last10_of_def
          slice_last_def phone_matches_def Let_def)
  have h3: "sender_phone (user_findUnique 11 (users ex_store)) = u_phone ?r"
    by (simp add: ex_sender_phone)
  have h4: "u_phone ?r \<noteq> Some []" by simp
  show ?thesis
    using h1 h2 h3 h4 own_phone_rejected [OF h1 h2 h3 h4] by blast
qed

text \<open>
  A user whose stored phone is the empty string, sending to a phone of white space only:
  the lookup resolves to the sender, the own-phone test is skipped because the empty
  string is falsy, and the transfer succeeds with one record appended. And a sender
  naming the own phone with amount 0 is answered with the invalid amount.
\<close>

theorem own_phone_counterexample:
  "resolveReceiver (str_or (b_receiverPhone (ex_body (JNum (Fin 100)) ''  '')) [])
       (users ex_store_blank) = Some \<lparr> u_id = 21, u_phone = Some [] \<rparr> \<and>
   sender_phone (user_findUnique 21 (users ex_store_blank))
     = u_phone \<lparr> u_id = 21, u_phone = Some [] \<rparr> \<and>
   transfer ex_parseFloat ex_store_blank 21 (ex_body (JNum (Fin 100)) ''  '')
     = (Success 200
          (\<lparr> w_id = 0, w_userId = 21, w_balance = 900, w_currency = ''USD'' \<rparr>,
           \<lparr> w_id = 0, w_userId = 21, w_balance = 1000, w_currency = ''USD'' \<rparr>,
           \<lparr> t_amount = 100, t_currency = ''EUR'', t_type = ''TRANSFER'',
             t_status = ''COMPLETED'', t_description = ''Transfer'',
             t_senderWalletId = Some 0, t_senderUserId = Some 21,
             t_receiverWalletId = Some 0, t_receiverUserId = Some 21 \<rparr>),
        ex_store_blank \<lparr> transactions :=
          [\<lparr> t_amount = 100, t_currency = ''EUR'', t_type = ''TRANSFER'',
             t_status = ''COMPLETED'', t_description = ''Transfer'',
             t_senderWalletId = Some 0, t_senderUserId = Some 21,
             t_receiverWalletId = Some 0, t_receiverUserId = Some 21 \<rparr>] \<rparr>) \<and>
   transfer ex_parseFloat ex_store 11 (ex_body (JNum (Fin 0)) ''+15550100'')
     = (Failure 400 ''Amount must be greater than 0'', ex_store)"
proof -
  have r: "resolveReceiver ''  '' (users ex_store_blank) = Some \<lparr> u_id = 21, u_phone = Some [] \<rparr>"
    by (simp add: resolveReceiver_def ex_store_blank_def normalizePhoneCandidates_def
          trim_def digitsOnly_def isDigit_def isWhiteSpace_def set_add_def last10_of_def
          slice_last_def phone_matches_def Let_def)
  have s: "sender_phone (user_findUnique 21 (users ex_store_blank)) = Some []"
    by (simp add: sender_phone_def user_findUnique_def ex_store_blank_def)
  have w: "wallet_findUnique 21 (wallets ex_store_blank)
             = Some \<lparr> w_id = 0, w_userId = 21, w_balance = 1000, w_currency = ''USD'' \<rparr>"
    by (simp add: wallet_findUnique_def ex_store_blank_def)
  have t: "transfer ex_parseFloat ex_store_blank 21 (ex_body (JNum (Fin 100)) ''  '')
     = (Success 200
          (\<lparr> w_id = 0, w_userId = 21, w_balance = 900, w_currency = ''USD'' \<rparr>,
           \<lparr> w_id = 0, w_userId = 21, w_balance = 1000, w_currency = ''USD'' \<rparr>,
           \<lparr> t_amount = 100, t_currency = ''EUR'', t_type = ''TRANSFER'',
             t_status = ''COMPLETED'', t_description = ''Transfer'',
             t_senderWalletId = Some 0, t_senderUserId = Some 21,
             t_receiverWalletId = Some 0, t_receiverUserId = Some 21 \<rparr>),
        ex_store_blank \<lparr> transactions :=
          [\<lparr> t_amount = 100, t_currency = ''EUR'', t_type = ''TRANSFER'',
             t_status = ''COMPLETED'', t_description = ''Transfer'',
             t_senderWalletId = Some 0, t_senderUserId = Some 21,
             t_receiverWalletId = Some 0, t_receiverUserId = Some 21 \<rparr>] \<rparr>)"
    unfolding transfer_def Let_def ex_amount
    by (simp add: ex_phone r s w truthy_def)
       (simp add: receiverWallet_def transfer_tx_def wallet_update_def wallet_findUnique_def
          apply_balance_def transaction_create_def ex_store_blank_def ex_body_def str_or_def
          Let_def)
  have z: "transfer ex_parseFloat ex_store 11 (ex_body (JNum (Fin 0)) ''+15550100'')
     = (Failure 400 ''Amount must be greater than 0'', ex_store)"
    by (simp add: transfer_def Let_def ex_amount)
  show ?thesis using r s t z by (simp add: ex_phone)
qed

section \<open>Phone matching\<close>

lemma endsWith_suffix: "endsWith s t \<longleftrightarrow> suffix t s"
proof
  assume "endsWith s t"
  then have "drop (length s - length t) s = t" by (simp add: endsWith_def)
  then show "suffix t s" using suffix_drop [of "length s - length t" s] by simp
next
  assume "suffix t s"
  then obtain zs where "s = zs @ t" by (auto simp: suffix_def)
  then show "endsWith s t" by (simp add: endsWith_def)
qed

lemma take_eq_prefix: "take (length t) s = t \<longleftrightarrow> prefix t s"
proof
  assume "take (length t) s = t"
  then show "prefix t s" using take_is_prefix [of "length t" s] by simp
next
  assume "prefix t s"
  then obtain zs where "s = t @ zs" by (auto simp: prefix_def)
  then show "take (length t) s = t" by simp
qed

lemma contains_sublist: "contains s t \<longleftrightarrow> sublist t s"
proof (induction s)
  case Nil
  then show ?case by simp
next
  case (Cons c s)
  have "contains (c # s) t \<longleftrightarrow> take (length t) (c # s) = t \<or> contains s t" by simp
  also have "\<dots> \<longleftrightarrow> prefix t (c # s) \<or> sublist t s"
    using Cons.IH take_eq_prefix [of t "c # s"] by simp
  finally show ?case by (simp add: sublist_Cons_right)
qed

lemma digit_not_space: "isWhiteSpace c \<Longrightarrow> \<not> isDigit c"
  by (auto simp: isWhiteSpace_def isDigit_def)

lemma filter_dropWhile_disjoint:
  "(\<And>x. Q x \<Longrightarrow> \<not> P x) \<Longrightarrow> filter P (dropWhile Q xs) = filter P xs"
  by (induction xs) auto

lemma digitsOnly_trim: "digitsOnly (trim s) = digitsOnly s"
proof -
  have "filter isDigit (rev (dropWhile isWhiteSpace (rev (dropWhile isWhiteSpace s))))
          = rev (filter isDigit (dropWhile isWhiteSpace (rev (dropWhile isWhiteSpace s))))"
    by (simp add: rev_filter)
  also have "\<dots> = rev (filter isDigit (rev (dropWhile isWhiteSpace s)))"
    by (simp add: filter_dropWhile_disjoint digit_not_space)
  also have "\<dots> = filter isDigit (dropWhile isWhiteSpace s)"
    by (simp add: rev_filter)
  also have "\<dots> = filter isDigit s"
    by (simp add: filter_dropWhile_disjoint digit_not_space)
  finally show ?thesis by (simp add: digitsOnly_def trim_def)
qed

lemma set_set_add: "set (set_add x xs) = insert x (set xs)"
  by (auto simp: set_add_def)

lemma set_candidates:
  "input \<noteq> [] \<Longrightarrow>
     set (normalizePhoneCandidates input) =
       {trim input} \<union>
       (if digitsOnly (trim input) = [] then {}
        else {digitsOnly (trim input), ''+'' @ digitsOnly (trim input)}) \<union>
       (if length (digitsOnly (trim input)) = 10
        then {''1'' @ digitsOnly (trim input), ''+1'' @ digitsOnly (trim input)} else {})"
  by (auto simp: normalizePhoneCandidates_def Let_def set_set_add)

text \<open>
  C5 (as amended). For a non-empty input the candidates are exactly: the trimmed input;
  when the input has a digit, and only then, its digits and \<open>+\<close> followed by its
  digits; and, when it has exactly ten digits, \<open>1\<close> and \<open>+1\<close> followed by them. A
  stored phone matches when it is a candidate or, the input having ten digits or more,
  when it ends with or contains the last ten digits of the input; a user without a phone
  never matches. The lookup returns the first user whose phone matches.
\<close>

theorem phone_candidates:
  assumes "input \<noteq> []"
  shows "set (normalizePhoneCandidates input) =
       {trim input} \<union>
       (if digitsOnly (trim input) = [] then {}
        else {digitsOnly (trim input), ''+'' @ digitsOnly (trim input)}) \<union>
       (if length (digitsOnly (trim input)) = 10
        then {''1'' @ digitsOnly (trim input), ''+1'' @ digitsOnly (trim input)} else {}) \<and>
     digitsOnly (trim input) = digitsOnly input \<and>
     (phone_matches (normalizePhoneCandidates input) (last10_of input) (Some p) \<longleftrightarrow>
        p \<in> set (normalizePhoneCandidates input) \<or>
        10 \<le> length (digitsOnly input) \<and>
        (suffix (drop (length (digitsOnly input) - 10) (digitsOnly input)) p \<or>
         sublist (drop (length (digitsOnly input) - 10) (digitsOnly input)) p)) \<and>
     \<not> phone_matches (normalizePhoneCandidates input) (last10_of input) None \<and>
     resolveReceiver input us =
       find (\<lambda>u. case u_phone u of
                    None \<Rightarrow> False
                  | Some p \<Rightarrow>
                      p \<in> set (normalizePhoneCandidates input) \<or>
                      10 \<le> length (digitsOnly input) \<and>
                      (suffix (drop (length (digitsOnly input) - 10) (digitsOnly input)) p \<or>
                       sublist (drop (length (digitsOnly input) - 10) (digitsOnly input)) p))
         us"
proof -
  have m: "phone_matches (normalizePhoneCandidates input) (last10_of input) (Some p) \<longleftrightarrow>
        p \<in> set (normalizePhoneCandidates input) \<or>
        10 \<le> length (digitsOnly input) \<and>
        (suffix (drop (length (digitsOnly input) - 10) (digitsOnly input)) p \<or>
         sublist (drop (length (digitsOnly input) - 10) (digitsOnly input)) p)" for p
    by (simp add: phone_matches_def last10_of_def Let_def slice_last_def endsWith_suffix
          contains_sublist)
  have n: "\<not> phone_matches (normalizePhoneCandidates input) (last10_of input) None"
    by (simp add: phone_matches_def)
  have "(\<lambda>u. phone_matches (normalizePhoneCandidates input) (last10_of input) (u_phone u))
          = (\<lambda>u. case u_phone u of
                    None \<Rightarrow> False
                  | Some p \<Rightarrow>
                      p \<in> set (normalizePhoneCandidates input) \<or>
                      10 \<le> length (digitsOnly input) \<and>
                      (suffix (drop (length (digitsOnly input) - 10) (digitsOnly input)) p \<or>
                       sublist (drop (length (digitsOnly input) - 10) (digitsOnly input)) p))"
    by (rule ext) (simp add: m n split: option.splits)
  then have "find (\<lambda>u. phone_matches (normalizePhoneCandidates input) (last10_of input)
                       (u_phone u)) us =
       find (\<lambda>u. case u_phone u of
                    None \<Rightarrow> False
                  | Some p \<Rightarrow>
                      p \<in> set (normalizePhoneCandidates input) \<or>
                      10 \<le> length (digitsOnly input) \<and>
                      (suffix (drop (length (digitsOnly input) - 10) (digitsOnly input)) p \<or>
                       sublist (drop (length (digitsOnly input) - 10) (digitsOnly input)) p))
         us"
    by (rule arg_cong [where f = "\<lambda>P. find P us"])
  then have r: "resolveReceiver input us =
       find (\<lambda>u. case u_phone u of
                    None \<Rightarrow> False
                  | Some p \<Rightarrow>
                      p \<in> set (normalizePhoneCandidates input) \<or>
                      10 \<le> length (digitsOnly input) \<and>
                      (suffix (drop (length (digitsOnly input) - 10) (digitsOnly input)) p \<or>
                       sublist (drop (length (digitsOnly input) - 10) (digitsOnly input)) p))
         us"
    unfolding resolveReceiver_def .
  have "phone_matches (normalizePhoneCandidates input) (last10_of input) (Some p) \<longleftrightarrow>
        p \<in> set (normalizePhoneCandidates input) \<or>
        10 \<le> length (digitsOnly input) \<and>
        (suffix (drop (length (digitsOnly input) - 10) (digitsOnly input)) p \<or>
         sublist (drop (length (digitsOnly input) - 10) (digitsOnly input)) p)"
    by (simp add: phone_matches_def last10_of_def Let_def slice_last_def endsWith_suffix
          contains_sublist)
  moreover have "\<not> phone_matches (normalizePhoneCandidates input) (last10_of input) None"
    by (simp add: phone_matches_def)
  ultimately show ?thesis
    using set_candidates [OF assms] digitsOnly_trim [of input] r by blast
qed

lemma ex_trim: "trim '' (415) 555-0100 '' = ''(415) 555-0100''"
  by (simp add: trim_def isWhiteSpace_def)

lemma ex_digits: "digitsOnly ''(415) 555-0100'' = ''4155550100''"
  by (simp add: digitsOnly_def isDigit_def)

theorem phone_candidates_witness:
  "'' (415) 555-0100 '' \<noteq> [] \<and>
   set (normalizePhoneCandidates '' (415) 555-0100 '') =
     {''(415) 555-0100'', ''4155550100'', ''+4155550100'', ''14155550100'', ''+14155550100''} \<and>
   digitsOnly '' (415) 555-0100 '' = ''4155550100'' \<and>
   phone_matches (normalizePhoneCandidates '' (415) 555-0100 '')
     (last10_of '' (415) 555-0100 '') (Some ''0014155550100'') \<and>
   phone_matches (normalizePhoneCandidates '' (415) 555-0100 '')
     (last10_of '' (415) 555-0100 '') (Some ''4155550100 ext 7'') \<and>
   resolveReceiver '' (415) 555-0100 '' (users ex_store)
     = Some \<lparr> u_id = 12, u_phone = Some ''4155550100'' \<rparr>"
proof -
  have h: "'' (415) 555-0100 '' \<noteq> []" by simp
  have s1: "suffix ''4155550100'' ''0014155550100''"
    by (simp add: suffix_to_prefix)
  have s2: "sublist ''4155550100'' ''4155550100 ext 7''"
    by (simp add: sublist_Cons_right)
  note t = phone_candidates [OF h, unfolded ex_trim ex_digits]
  have d: "digitsOnly '' (415) 555-0100 '' = ''4155550100''"
    using t [of "[]"] by simp
  have c: "set (normalizePhoneCandidates '' (415) 555-0100 '') =
     {''(415) 555-0100'', ''4155550100'', ''+4155550100'', ''14155550100'', ''+14155550100''}"
    using t [of "[]"] by auto
  have m1: "phone_matches (normalizePhoneCandidates '' (415) 555-0100 '')
     (last10_of '' (415) 555-0100 '') (Some ''0014155550100'')"
    using t [of "''0014155550100''"] s1 by (simp add: d)
  have m2: "phone_matches (normalizePhoneCandidates '' (415) 555-0100 '')
     (last10_of '' (415) 555-0100 '') (Some ''4155550100 ext 7'')"
    using t [of "''4155550100 ext 7''"] s2 by (simp add: d)
  have n: "\<not> suffix ''4155550100'' ''+15550100''" "\<not> sublist ''4155550100'' ''+15550100''"
    by (simp_all add: suffix_to_prefix sublist_Cons_right)
  have r: "resolveReceiver '' (415) 555-0100 '' (users ex_store)
     = Some \<lparr> u_id = 12, u_phone = Some ''4155550100'' \<rparr>"
    using t [of "[]" "users ex_store"] n by (simp add: d c ex_store_def)
  show ?thesis using h c d m1 m2 r by blast
qed

text \<open>
  An input without a digit has one candidate, itself: \<open>+\<close> followed by the (empty)
  digits is not among the candidates.
\<close>

theorem phone_candidates_counterexample:
  "''abc'' \<noteq> [] \<and> trim ''abc'' = ''abc'' \<and> digitsOnly (trim ''abc'') = [] \<and>
   normalizePhoneCandidates ''abc'' = [''abc''] \<and>
   ''+'' @ digitsOnly (trim ''abc'') \<notin> set (normalizePhoneCandidates ''abc'')"
  by (simp add: normalizePhoneCandidates_def trim_def digitsOnly_def isDigit_def
        isWhiteSpace_def set_add_def Let_def)

section \<open>Insufficient funds\<close>

lemma withdraw_succeeded:
  "succeeded (fst (withdraw parseFloat st userId body)) \<Longrightarrow>
     0 < toNumber parseFloat (b_amount body) \<and>
     (\<exists>w. wallet_findUnique userId (wallets st) = Some w \<and>
          toNumber parseFloat (b_amount body) \<le> w_balance w)"
  by (auto simp: withdraw_def Let_def split: option.splits if_splits)

lemma transfer_succeeded:
  "succeeded (fst (transfer parseFloat st userId body)) \<Longrightarrow>
     0 < toNumber parseFloat (b_amount body) \<and>
     (\<exists>w. wallet_findUnique userId (wallets st) = Some w \<and>
          toNumber parseFloat (b_amount body) \<le> w_balance w)"
  by (auto simp: transfer_def Let_def split: option.splits if_splits)

lemma withdraw_low:
  assumes "0 < toNumber parseFloat (b_amount body)"
    and "case wallet_findUnique userId (wallets st) of None \<Rightarrow> True
         | Some w \<Rightarrow> w_balance w < toNumber parseFloat (b_amount body)"
  shows "withdraw parseFloat st userId body = (Failure 400 ''Insufficient funds'', st)"
  using assms by (auto simp: withdraw_def Let_def split: option.splits)

lemma transfer_low:
  assumes "0 < toNumber parseFloat (b_amount body)"
    and "case wallet_findUnique userId (wallets st) of None \<Rightarrow> True
         | Some w \<Rightarrow> w_balance w < toNumber parseFloat (b_amount body)"
    and "resolveReceiver (str_or (b_receiverPhone body) []) (users st) = Some r"
    and "\<not> (truthy (sender_phone (user_findUnique userId (users st))) \<and> truthy (u_phone r) \<and>
            sender_phone (user_findUnique userId (users st)) = u_phone r)"
  shows "transfer parseFloat st userId body = (Failure 400 ''Insufficient funds'', st)"
proof -
  have inp: "str_or (b_receiverPhone body) [] \<noteq> []"
    using assms(3) resolveReceiver_empty [of "users st"] by auto
  have a: "\<not> toNumber parseFloat (b_amount body) \<le> 0" using assms(1) by simp
  show ?thesis
    unfolding transfer_def Let_def
    using assms(2,4) by (auto simp: a inp assms(3) split: option.splits)
qed

text \<open>
  C4 (as amended). With amount \<open>a > 0\<close> and no wallet of the caller's, or one with
  balance below \<open>a\<close>: withdraw answers 400 with the insufficient-funds message and
  returns the store as it was; transfer fails and returns the store as it was, with the
  insufficient-funds answer when the receiver resolves and the own-phone test does not
  fire. Withdraw and transfer succeed only with a positive amount and a wallet of the
  caller's holding at least the amount.
\<close>

theorem insufficient_funds_rejected:
  "(0 < toNumber parseFloat (b_amount body) \<and>
    (case wallet_findUnique userId (wallets st) of None \<Rightarrow> True
     | Some w \<Rightarrow> w_balance w < toNumber parseFloat (b_amount body)) \<longrightarrow>
      withdraw parseFloat st userId body = (Failure 400 ''Insufficient funds'', st) \<and>
      snd (transfer parseFloat st userId body) = st \<and>
      \<not> succeeded (fst (transfer parseFloat st userId body)) \<and>
      (\<forall>r. resolveReceiver (str_or (b_receiverPhone body) []) (users st) = Some r \<and>
           \<not> (truthy (sender_phone (user_findUnique userId (users st))) \<and> truthy (u_phone r) \<and>
              sender_phone (user_findUnique userId (users st)) = u_phone r) \<longrightarrow>
           transfer parseFloat st userId body = (Failure 400 ''Insufficient funds'', st))) \<and>
   (succeeded (fst (withdraw parseFloat st userId body)) \<longrightarrow>
      0 < toNumber parseFloat (b_amount body) \<and>
      (\<exists>w. wallet_findUnique userId (wallets st) = Some w \<and>
           toNumber parseFloat (b_amount body) \<le> w_balance w)) \<and>
   (succeeded (fst (transfer parseFloat st userId body)) \<longrightarrow>
      0 < toNumber parseFloat (b_amount body) \<and>
      (\<exists>w. wallet_findUnique userId (wallets st) = Some w \<and>
           toNumber parseFloat (b_amount body) \<le> w_balance w))"
proof (intro conjI impI allI)
  assume h: "0 < toNumber parseFloat (b_amount body) \<and>
    (case wallet_findUnique userId (wallets st) of None \<Rightarrow> True
     | Some w \<Rightarrow> w_balance w < toNumber parseFloat (b_amount body))"
  show "withdraw parseFloat st userId body = (Failure 400 ''Insufficient funds'', st)"
    using h withdraw_low by blast
  have np: "\<not> (\<exists>receiverUser sw. transfer_passes parseFloat st userId body receiverUser sw)"
    using h by (auto simp: transfer_passes_def)
  then show "snd (transfer parseFloat st userId body) = st"
    by (rule transfer_unchanged)
  show "\<not> succeeded (fst (transfer parseFloat st userId body))"
    using h transfer_succeeded [of parseFloat st userId body] by (auto split: option.splits)
  fix r
  assume "resolveReceiver (str_or (b_receiverPhone body) []) (users st) = Some r \<and>
           \<not> (truthy (sender_phone (user_findUnique userId (users st))) \<and> truthy (u_phone r) \<and>
              sender_phone (user_findUnique userId (users st)) = u_phone r)"
  then show "transfer parseFloat st userId body = (Failure 400 ''Insufficient funds'', st)"
    using h transfer_low by blast
next
  assume "succeeded (fst (withdraw parseFloat st userId body))"
  then show "0 < toNumber parseFloat (b_amount body)"
    and "\<exists>w. wallet_findUnique userId (wallets st) = Some w \<and>
           toNumber parseFloat (b_amount body) \<le> w_balance w"
    using withdraw_succeeded by blast+
next
  assume "succeeded (fst (transfer parseFloat st userId body))"
  then show "0 < toNumber parseFloat (b_amount body)"
    and "\<exists>w. wallet_findUnique userId (wallets st) = Some w \<and>
           toNumber parseFloat (b_amount body) \<le> w_balance w"
    using transfer_succeeded by blast+
qed

lemma ex_no_wallet: "wallet_findUnique 13 (wallets ex_store) = None"
  by (simp add: wallet_findUnique_def ex_store_def)

lemma ex_no_phone: "sender_phone (user_findUnique 13 (users ex_store)) = None"
  by (simp add: sender_phone_def user_findUnique_def ex_store_def)

theorem insufficient_funds_rejected_witness:
  "0 < toNumber ex_parseFloat (b_amount (ex_body (JNum (Fin 50)) ''(415) 555-0100'')) \<and>
   wallet_findUnique 13 (wallets ex_store) = None \<and>
   resolveReceiver (str_or (b_receiverPhone (ex_body (JNum (Fin 50)) ''(415) 555-0100'')) [])
       (users ex_store) = Some \<lparr> u_id = 12, u_phone = Some ''4155550100'' \<rparr> \<and>
   sender_phone (user_findUnique 13 (users ex_store)) = None \<and>
   withdraw ex_parseFloat ex_store 13 (ex_body (JNum (Fin 50)) ''(415) 555-0100'')
     = (Failure 400 ''Insufficient funds'', ex_store) \<and>
   transfer ex_parseFloat ex_store 13 (ex_body (JNum (Fin 50)) ''(415) 555-0100'')
     = (Failure 400 ''Insufficient funds'', ex_store)"
proof -
  let ?b = "ex_body (JNum (Fin 50)) ''(415) 555-0100''"
  let ?r = "\<lparr> u_id = 12, u_phone = Some ''4155550100'' \<rparr>"
  have h1: "0 < toNumber ex_parseFloat (b_amount ?b)" by (simp add: ex_amount)
  have h2: "wallet_findUnique 13 (wallets ex_store) = None" by (rule ex_no_wallet)
  have h3: "resolveReceiver (str_or (b_receiverPhone ?b) []) (users ex_store) = Some ?r"
    by (simp add: ex_phone ex_resolve)
  have h4: "sender_phone (user_findUnique 13 (users ex_store)) = None" by (rule ex_no_phone)
  have h5: "\<not> (truthy (sender_phone (user_findUnique 13 (users ex_store))) \<and> truthy (u_phone ?r) \<and>
              sender_phone (user_findUnique 13 (users ex_store)) = u_phone ?r)"
    by (simp add: h4)
  have low: "case wallet_findUnique 13 (wallets ex_store) of None \<Rightarrow> True
     | Some w \<Rightarrow> w_balance w < toNumber ex_parseFloat (b_amount ?b)"
    by (simp add: h2)
  show ?thesis
    using h1 h2 h3 h4 h5 low insufficient_funds_rejected [of ex_parseFloat ?b 13 ex_store]
    by blast
qed

text \<open>
  A caller without the funds whose transfer is stopped by an earlier check gets that
  check's answer: receiver not found (404), missing receiver phone, own phone number.
\<close>

theorem insufficient_funds_counterexample:
  "0 < toNumber ex_parseFloat (b_amount (ex_body (JNum (Fin 50)) ''000'')) \<and>
   wallet_findUnique 13 (wallets ex_store) = None \<and>
   transfer ex_parseFloat ex_store 13 (ex_body (JNum (Fin 50)) ''000'')
     = (Failure 404 ''Receiver not found'', ex_store) \<and>
   transfer ex_parseFloat ex_store 13 (ex_body (JNum (Fin 50)) [])
     = (Failure 400 ''Receiver phone number is required'', ex_store) \<and>
   wallet_findUnique 11 (wallets ex_store)
     = Some \<lparr> w_id = 0, w_userId = 11, w_balance = 1000, w_currency = ''USD'' \<rparr> \<and>
   transfer ex_parseFloat ex_store 11 (ex_body (JNum (Fin 5000)) ''+15550100'')
     = (Failure 400 ''Cannot transfer to your own phone number'', ex_store)"
proof -
  have r: "resolveReceiver ''000'' (users ex_store) = None"
    using ex_no_match by (simp add: resolveReceiver_None)
  have 1: "transfer ex_parseFloat ex_store 13 (ex_body (JNum (Fin 50)) ''000'')
     = (Failure 404 ''Receiver not found'', ex_store)"
    by (simp add: transfer_def Let_def ex_amount ex_phone r)
  have 2: "transfer ex_parseFloat ex_store 13 (ex_body (JNum (Fin 50)) [])
     = (Failure 400 ''Receiver phone number is required'', ex_store)"
    by (simp add: transfer_def Let_def ex_amount) (simp add: ex_body_def str_or_def)
  have r3: "resolveReceiver ''+15550100'' (users ex_store)
              = Some \<lparr> u_id = 11, u_phone = Some ''+15550100'' \<rparr>"
    by (simp add: resolveReceiver_def ex_store_def normalizePhoneCandidates_def
          trim_def digitsOnly_def isDigit_def isWhiteSpace_def set_add_def last10_of_def
          slice_last_def phone_matches_def Let_def)
  have 3: "transfer ex_parseFloat ex_store 11 (ex_body (JNum (Fin 5000)) ''+15550100'')
     = (Failure 400 ''Cannot transfer to your own phone number'', ex_store)"
    unfolding transfer_def Let_def ex_amount
    by (simp add: ex_phone r3 ex_sender_phone truthy_def)
  show ?thesis using 1 2 3 ex_no_wallet ex_sender_wallet by (simp add: ex_amount)
qed

section \<open>Wallet creation\<close>

lemma getWallet_present:
  "wallet_findUnique userId (wallets st) = Some w \<Longrightarrow>
     getWallet st userId
       = (Success 200 (w, count_sent userId (transactions st),
                          count_received userId (transactions st)), st)"
  by (simp add: getWallet_def)

lemma getWallet_absent:
  "wallet_findUnique userId (wallets st) = None \<Longrightarrow>
     getWallet st userId
       = (Success 200
            (\<lparr> w_id = fresh_id (wallets st), w_userId = userId, w_balance = 1000,
               w_currency = ''USD'' \<rparr>,
             count_sent userId (transactions st), count_received userId (transactions st)),
          st \<lparr> wallets := wallets st @
            [\<lparr> w_id = fresh_id (wallets st), w_userId = userId, w_balance = 1000,
               w_currency = ''USD'' \<rparr>] \<rparr>)"
  by (simp add: getWallet_def wallet_create_absent)

lemma transfer_creates_receiver:
  assumes wf: "wf_store st"
    and p: "transfer_passes parseFloat st userId body receiverUser sw"
    and none: "wallet_findUnique (u_id receiverUser) (wallets st) = None"
  shows "wallet_findUnique (u_id receiverUser) (wallets (snd (transfer parseFloat st userId body)))
           = Some \<lparr> w_id = fresh_id (wallets st), w_userId = u_id receiverUser,
                    w_balance = 0 + toNumber parseFloat (b_amount body),
                    w_currency = str_or (b_currency body) ''USD'' \<rparr>"
proof -
  let ?a = "toNumber parseFloat (b_amount body)"
  let ?cur = "str_or (b_currency body) ''USD''"
  let ?rw = "\<lparr> w_id = fresh_id (wallets st), w_userId = u_id receiverUser, w_balance = 0,
               w_currency = ?cur \<rparr>"
  let ?st1 = "st \<lparr> wallets := wallets st @ [?rw] \<rparr>"
  have r: "receiverWallet st (u_id receiverUser) ?cur = Some (?rw, ?st1)"
    by (rule receiverWallet_absent [OF none])
  have wf1: "wf_store ?st1" by (rule wf_store_new_wallet [OF wf none])
  then have d: "distinct (map w_id (wallets ?st1))" by (simp add: wf_store_def)
  have sw0: "sw \<in> set (wallets st)"
    using p by (auto simp: transfer_passes_def dest: findUnique_SomeD)
  then have sw: "sw \<in> set (wallets ?st1)" by simp
  have rw: "?rw \<in> set (wallets ?st1)" by simp
  have ne: "w_id sw \<noteq> fresh_id (wallets st)" using fresh_id_gt [OF sw0] by simp
  have f: "wallet_findUnique (u_id receiverUser) (wallets ?st1) = Some ?rw"
    by (simp add: findUnique_append none)
  have "wallet_findUnique (u_id receiverUser)
          (map (apply_balance (w_id ?rw) (\<lambda>b. b + ?a))
             (map (apply_balance (w_id sw) (\<lambda>b. b - ?a)) (wallets ?st1)))
        = Some (apply_balance (w_id ?rw) (\<lambda>b. b + ?a) (apply_balance (w_id sw) (\<lambda>b. b - ?a) ?rw))"
    unfolding findUnique_apply f by simp
  also have "\<dots> = Some \<lparr> w_id = fresh_id (wallets st), w_userId = u_id receiverUser,
                    w_balance = 0 + ?a, w_currency = ?cur \<rparr>"
    using ne by (simp add: apply_balance_def)
  finally show ?thesis
    unfolding transfer_passes_eq [OF p r d sw rw] by (simp del: map_map)
qed

text \<open>
  C8. getWallet returns the caller's wallet and the store unchanged when the wallet
  exists, and otherwise appends a wallet with balance 1000 and currency USD; transfer
  creates an absent receiver wallet with balance 0 in the request's currency (USD when
  the request names none), which the transfer then credits.
\<close>

theorem wallet_creation:
  "(\<forall>w. wallet_findUnique userId (wallets st) = Some w \<longrightarrow>
        getWallet st userId
          = (Success 200 (w, count_sent userId (transactions st),
                             count_received userId (transactions st)), st)) \<and>
   (wallet_findUnique userId (wallets st) = None \<longrightarrow>
        getWallet st userId
          = (Success 200
               (\<lparr> w_id = fresh_id (wallets st), w_userId = userId, w_balance = 1000,
                  w_currency = ''USD'' \<rparr>,
                count_sent userId (transactions st), count_received userId (transactions st)),
             st \<lparr> wallets := wallets st @
               [\<lparr> w_id = fresh_id (wallets st), w_userId = userId, w_balance = 1000,
                  w_currency = ''USD'' \<rparr>] \<rparr>)) \<and>
   (wallet_findUnique rid (wallets st) = None \<longrightarrow>
        receiverWallet st rid cur
          = Some (\<lparr> w_id = fresh_id (wallets st), w_userId = rid, w_balance = 0,
                    w_currency = cur \<rparr>,
                  st \<lparr> wallets := wallets st @
                    [\<lparr> w_id = fresh_id (wallets st), w_userId = rid, w_balance = 0,
                       w_currency = cur \<rparr>] \<rparr>)) \<and>
   (wf_store st \<and> transfer_passes parseFloat st userId body receiverUser sw \<and>
    wallet_findUnique (u_id receiverUser) (wallets st) = None \<longrightarrow>
        wallet_findUnique (u_id receiverUser)
            (wallets (snd (transfer parseFloat st userId body)))
          = Some \<lparr> w_id = fresh_id (wallets st), w_userId = u_id receiverUser,
                   w_balance = 0 + toNumber parseFloat (b_amount body),
                   w_currency = str_or (b_currency body) ''USD'' \<rparr>)"
  using getWallet_present getWallet_absent receiverWallet_absent transfer_creates_receiver
  by blast

theorem wallet_creation_witness:
  "wallet_findUnique 11 (wallets ex_store)
     = Some \<lparr> w_id = 0, w_userId = 11, w_balance = 1000, w_currency = ''USD'' \<rparr> \<and>
   getWallet ex_store 11
     = (Success 200 (\<lparr> w_id = 0, w_userId = 11, w_balance = 1000, w_currency = ''USD'' \<rparr>, 0, 0),
        ex_store) \<and>
   wallet_findUnique 12 (wallets ex_store) = None \<and>
   fst (getWallet ex_store 12)
     = Success 200 (\<lparr> w_id = 1, w_userId = 12, w_balance = 1000, w_currency = ''USD'' \<rparr>, 0, 0) \<and>
   map_option fst (receiverWallet ex_store 12 ''EUR'')
     = Some \<lparr> w_id = 1, w_userId = 12, w_balance = 0, w_currency = ''EUR'' \<rparr> \<and>
   wf_store ex_store \<and>
   transfer_passes ex_parseFloat ex_store 11 (ex_body (JNum (Fin 300)) ''(415) 555-0100'')
     \<lparr> u_id = 12, u_phone = Some ''4155550100'' \<rparr>
     \<lparr> w_id = 0, w_userId = 11, w_balance = 1000, w_currency = ''USD'' \<rparr> \<and>
   wallet_findUnique 12
       (wallets (snd (transfer ex_parseFloat ex_store 11
                        (ex_body (JNum (Fin 300)) ''(415) 555-0100''))))
     = Some \<lparr> w_id = 1, w_userId = 12, w_balance = 300, w_currency = ''EUR'' \<rparr>"
proof -
  let ?b = "ex_body (JNum (Fin 300)) ''(415) 555-0100''"
  let ?r = "\<lparr> u_id = 12, u_phone = Some ''4155550100'' \<rparr>"
  let ?w = "\<lparr> w_id = 0, w_userId = 11, w_balance = 1000, w_currency = ''USD'' \<rparr>"
  have n: "wallet_findUnique 12 (wallets ex_store) = None"
    by (simp add: wallet_findUnique_def ex_store_def)
  have p: "transfer_passes ex_parseFloat ex_store 11 ?b ?r ?w"
    by (simp add: transfer_passes_def ex_amount ex_phone ex_resolve ex_sender_phone
          ex_sender_wallet)
  have e: "fresh_id (wallets ex_store) = 1" "transactions ex_store = []"
    "str_or (b_currency ?b) ''USD'' = ''EUR''"
    by (simp_all add: ex_store_def ex_body_def str_or_def)
  note a = wallet_creation [of 11 ex_store 12 "''EUR''" ex_parseFloat ?b ?r ?w]
  note b = wallet_creation [of 12 ex_store 12 "''EUR''" ex_parseFloat ?b ?r ?w]
  have 1: "getWallet ex_store 11 = (Success 200 (?w, 0, 0), ex_store)"
    using a ex_sender_wallet by (simp add: e count_sent_def count_received_def)
  have 2: "fst (getWallet ex_store 12)
     = Success 200 (\<lparr> w_id = 1, w_userId = 12, w_balance = 1000, w_currency = ''USD'' \<rparr>, 0, 0)"
    using b n by (simp add: e count_sent_def count_received_def)
  have 3: "map_option fst (receiverWallet ex_store 12 ''EUR'')
     = Some \<lparr> w_id = 1, w_userId = 12, w_balance = 0, w_currency = ''EUR'' \<rparr>"
    using a n by (simp add: e)
  have 4: "wallet_findUnique 12 (wallets (snd (transfer ex_parseFloat ex_store 11 ?b)))
     = Some \<lparr> w_id = 1, w_userId = 12, w_balance = 300, w_currency = ''EUR'' \<rparr>"
    using a n p ex_wf by (simp add: e ex_amount)
  show ?thesis using ex_sender_wallet 1 n 2 3 ex_wf p 4 by blast
qed

section \<open>Currency of a wallet\<close>

lemma wallet_keys_txn [simp]: "wallet_keys (transaction_create st r) = wallet_keys st"
  by (simp add: wallet_keys_def)

lemma wallet_update_keys:
  "wallet_update st i f = Some (w, st') \<Longrightarrow> wallet_keys st' = wallet_keys st"
  by (auto simp: wallet_update_def wallet_keys_def apply_balance_def split: option.splits)

lemma wallet_create_keys:
  "wallet_create st uid b cur = Some (w, st') \<Longrightarrow> prefix (wallet_keys st) (wallet_keys st')"
  by (auto simp: wallet_create_def wallet_keys_def Let_def split: if_splits)

lemma getWallet_keys: "prefix (wallet_keys st) (wallet_keys (snd (getWallet st userId)))"
  by (auto simp: getWallet_def split: option.splits dest: wallet_create_keys)

lemma deposit_keys:
  "prefix (wallet_keys st) (wallet_keys (snd (deposit parseFloat st userId body)))"
  by (auto simp: deposit_def Let_def wallet_upsert_def split: option.splits
        dest: wallet_create_keys wallet_update_keys)

lemma withdraw_keys:
  "prefix (wallet_keys st) (wallet_keys (snd (withdraw parseFloat st userId body)))"
  by (auto simp: withdraw_def Let_def split: option.splits dest: wallet_update_keys)

lemma receiverWallet_keys:
  "receiverWallet st rid cur = Some (w, st') \<Longrightarrow> prefix (wallet_keys st) (wallet_keys st')"
  by (auto simp: receiverWallet_def split: option.splits dest: wallet_create_keys)

lemma transfer_tx_keys:
  "transfer_tx st sw rw userId rid a cur descr = Some (res, st') \<Longrightarrow>
     wallet_keys st' = wallet_keys st"
  by (auto simp: transfer_tx_def Let_def split: option.splits dest!: wallet_update_keys)

lemma transfer_keys:
  "prefix (wallet_keys st) (wallet_keys (snd (transfer parseFloat st userId body)))"
  by (auto simp: transfer_def Let_def split: option.splits
        dest!: receiverWallet_keys transfer_tx_keys)

lemma deposit_currency_blind:
  "status (fst (deposit parseFloat st userId (body \<lparr> b_currency := c \<rparr>)))
     = status (fst (deposit parseFloat st userId body)) \<and>
   balances (snd (deposit parseFloat st userId (body \<lparr> b_currency := c \<rparr>)))
     = balances (snd (deposit parseFloat st userId body))"
  by (simp add: deposit_def Let_def wallet_upsert_def wallet_create_def wallet_update_def
        balances_def transaction_create_def split: option.splits)

lemma withdraw_currency_blind:
  "status (fst (withdraw parseFloat st userId (body \<lparr> b_currency := c \<rparr>)))
     = status (fst (withdraw parseFloat st userId body)) \<and>
   balances (snd (withdraw parseFloat st userId (body \<lparr> b_currency := c \<rparr>)))
     = balances (snd (withdraw parseFloat st userId body))"
  by (simp add: withdraw_def Let_def wallet_update_def
        balances_def transaction_create_def split: option.splits)

lemma transfer_tx_some:
  assumes sw: "sw \<in> set (wallets st)" and rw: "rw \<in> set (wallets st)"
  shows "\<exists>res. transfer_tx st sw rw userId rid a cur descr =
     Some (res,
           transaction_create
             (st \<lparr> wallets := map (apply_balance (w_id rw) (\<lambda>b. b + a))
                                (map (apply_balance (w_id sw) (\<lambda>b. b - a)) (wallets st)) \<rparr>)
             \<lparr> t_amount = a, t_currency = cur, t_type = ''TRANSFER'',
               t_status = ''COMPLETED'', t_description = descr,
               t_senderWalletId = Some (w_id sw), t_senderUserId = Some userId,
               t_receiverWalletId = Some (w_id rw), t_receiverUserId = Some rid \<rparr>)"
proof -
  let ?st = "st \<lparr> wallets := map (apply_balance (w_id sw) (\<lambda>b. b - a)) (wallets st) \<rparr>"
  obtain x where x: "find (\<lambda>w. w_id w = w_id sw) (wallets st) = Some x"
    using find_by_id_in [OF sw] by auto
  obtain y where y: "find (\<lambda>w. w_id w = w_id rw) (wallets st) = Some y"
    using find_by_id_in [OF rw] by auto
  have 1: "wallet_update st (w_id sw) (\<lambda>b. b - a)
             = Some (apply_balance (w_id sw) (\<lambda>b. b - a) x, ?st)"
    by (rule wallet_update_find [OF x])
  have "find (\<lambda>w. w_id w = w_id rw) (wallets ?st)
          = Some (apply_balance (w_id sw) (\<lambda>b. b - a) y)"
    by (simp add: find_by_id_apply y)
  then have 2: "wallet_update ?st (w_id rw) (\<lambda>b. b + a)
             = Some (apply_balance (w_id rw) (\<lambda>b. b + a) (apply_balance (w_id sw) (\<lambda>b. b - a) y),
                     ?st \<lparr> wallets := map (apply_balance (w_id rw) (\<lambda>b. b + a)) (wallets ?st) \<rparr>)"
    by (rule wallet_update_find)
  show ?thesis
    unfolding transfer_tx_def 1 by (simp add: 2 Let_def)
qed

lemma transfer_passes_result:
  assumes p: "transfer_passes parseFloat st userId body receiverUser sw"
    and r: "receiverWallet st (u_id receiverUser) (str_or (b_currency body) ''USD'') = Some (rw, st1)"
    and sw: "sw \<in> set (wallets st1)" and rw: "rw \<in> set (wallets st1)"
  shows "\<exists>res. transfer parseFloat st userId body =
     (Success 200 res,
      transaction_create
        (st1 \<lparr> wallets :=
                 map (apply_balance (w_id rw) (\<lambda>b. b + toNumber parseFloat (b_amount body)))
                   (map (apply_balance (w_id sw) (\<lambda>b. b - toNumber parseFloat (b_amount body)))
                      (wallets st1)) \<rparr>)
        \<lparr> t_amount = toNumber parseFloat (b_amount body),
          t_currency = str_or (b_currency body) ''USD'', t_type = ''TRANSFER'',
          t_status = ''COMPLETED'', t_description = str_or (b_description body) ''Transfer'',
          t_senderWalletId = Some (w_id sw), t_senderUserId = Some userId,
          t_receiverWalletId = Some (w_id rw), t_receiverUserId = Some (u_id receiverUser) \<rparr>)"
proof -
  have ne: "str_or (b_receiverPhone body) [] \<noteq> []"
    using p resolveReceiver_empty [of "users st"] by (auto simp: transfer_passes_def)
  have a: "\<not> toNumber parseFloat (b_amount body) \<le> 0"
    and b: "\<not> w_balance sw < toNumber parseFloat (b_amount body)"
    using p by (auto simp: transfer_passes_def)
  have res: "resolveReceiver (str_or (b_receiverPhone body) []) (users st) = Some receiverUser"
    and self: "\<not> (truthy (sender_phone (user_findUnique userId (users st))) \<and>
         truthy (u_phone receiverUser) \<and>
         sender_phone (user_findUnique userId (users st)) = u_phone receiverUser)"
    and fw: "wallet_findUnique userId (wallets st) = Some sw"
    using p by (simp_all add: transfer_passes_def)
  from transfer_tx_some [OF sw rw] obtain res' where
    tx: "transfer_tx st1 sw rw userId (u_id receiverUser) (toNumber parseFloat (b_amount body))
           (str_or (b_currency body) ''USD'') (str_or (b_description body) ''Transfer'')
         = Some (res',
           transaction_create
             (st1 \<lparr> wallets :=
                 map (apply_balance (w_id rw) (\<lambda>b. b + toNumber parseFloat (b_amount body)))
                   (map (apply_balance (w_id sw) (\<lambda>b. b - toNumber parseFloat (b_amount body)))
                      (wallets st1)) \<rparr>)
             \<lparr> t_amount = toNumber parseFloat (b_amount body),
               t_currency = str_or (b_currency body) ''USD'', t_type = ''TRANSFER'',
               t_status = ''COMPLETED'', t_description = str_or (b_description body) ''Transfer'',
               t_senderWalletId = Some (w_id sw), t_senderUserId = Some userId,
               t_receiverWalletId = Some (w_id rw),
               t_receiverUserId = Some (u_id receiverUser) \<rparr>)"
    by blast
  show ?thesis
    unfolding transfer_def Let_def
    by (rule exI [of _ res']) (use self in \<open>simp add: a b ne res fw r tx\<close>)
qed

lemma transfer_passes_currency [simp]:
  "transfer_passes parseFloat st userId (body \<lparr> b_currency := c \<rparr>) receiverUser sw
     = transfer_passes parseFloat st userId body receiverUser sw"
  by (simp add: transfer_passes_def)

lemma transfer_fails_currency:
  "\<not> (\<exists>receiverUser sw. transfer_passes parseFloat st userId body receiverUser sw) \<Longrightarrow>
     transfer parseFloat st userId (body \<lparr> b_currency := c \<rparr>)
       = transfer parseFloat st userId body"
  by (auto simp: transfer_def transfer_passes_def Let_def split: option.splits)

lemma transfer_passes_balances:
  assumes p: "transfer_passes parseFloat st userId body receiverUser sw"
  shows "status (fst (transfer parseFloat st userId body)) = 200 \<and>
     balances (snd (transfer parseFloat st userId body)) =
       (case wallet_findUnique (u_id receiverUser) (wallets st) of
          Some rw \<Rightarrow>
            map (w_balance \<circ> (apply_balance (w_id rw) (\<lambda>b. b + toNumber parseFloat (b_amount body)) \<circ>
                              apply_balance (w_id sw) (\<lambda>b. b - toNumber parseFloat (b_amount body))))
              (wallets st)
        | None \<Rightarrow>
            map (w_balance \<circ> (apply_balance (fresh_id (wallets st))
                                (\<lambda>b. b + toNumber parseFloat (b_amount body)) \<circ>
                              apply_balance (w_id sw) (\<lambda>b. b - toNumber parseFloat (b_amount body))))
              (wallets st) @ [0 + toNumber parseFloat (b_amount body)])"
proof -
  let ?a = "toNumber parseFloat (b_amount body)"
  let ?cur = "str_or (b_currency body) ''USD''"
  have sw0: "sw \<in> set (wallets st)"
    using p by (auto simp: transfer_passes_def dest: findUnique_SomeD)
  show ?thesis
  proof (cases "wallet_findUnique (u_id receiverUser) (wallets st)")
    case None
    let ?rw = "\<lparr> w_id = fresh_id (wallets st), w_userId = u_id receiverUser, w_balance = 0,
                 w_currency = ?cur \<rparr>"
    let ?st1 = "st \<lparr> wallets := wallets st @ [?rw] \<rparr>"
    have r: "receiverWallet st (u_id receiverUser) ?cur = Some (?rw, ?st1)"
      by (rule receiverWallet_absent [OF None])
    have sw: "sw \<in> set (wallets ?st1)" using sw0 by simp
    have rw: "?rw \<in> set (wallets ?st1)" by simp
    have ne: "w_id sw \<noteq> fresh_id (wallets st)" using fresh_id_gt [OF sw0] by simp
    from transfer_passes_result [OF p r sw rw] obtain res where
      "transfer parseFloat st userId body =
        (Success 200 res,
         transaction_create
           (?st1 \<lparr> wallets := map (apply_balance (w_id ?rw) (\<lambda>b. b + ?a))
                      (map (apply_balance (w_id sw) (\<lambda>b. b - ?a)) (wallets ?st1)) \<rparr>)
           \<lparr> t_amount = ?a, t_currency = ?cur, t_type = ''TRANSFER'',
             t_status = ''COMPLETED'', t_description = str_or (b_description body) ''Transfer'',
             t_senderWalletId = Some (w_id sw), t_senderUserId = Some userId,
             t_receiverWalletId = Some (w_id ?rw),
             t_receiverUserId = Some (u_id receiverUser) \<rparr>)"
      by blast
    then show ?thesis using ne by (simp add: None balances_def apply_balance_def)
  next
    case (Some rw)
    have r: "receiverWallet st (u_id receiverUser) ?cur = Some (rw, st)"
      by (rule receiverWallet_present [OF Some])
    have rw: "rw \<in> set (wallets st)" using Some by (auto dest: findUnique_SomeD)
    from transfer_passes_result [OF p r sw0 rw] obtain res where
      "transfer parseFloat st userId body =
        (Success 200 res,
         transaction_create
           (st \<lparr> wallets := map (apply_balance (w_id rw) (\<lambda>b. b + ?a))
                      (map (apply_balance (w_id sw) (\<lambda>b. b - ?a)) (wallets st)) \<rparr>)
           \<lparr> t_amount = ?a, t_currency = ?cur, t_type = ''TRANSFER'',
             t_status = ''COMPLETED'', t_description = str_or (b_description body) ''Transfer'',
             t_senderWalletId = Some (w_id sw), t_senderUserId = Some userId,
             t_receiverWalletId = Some (w_id rw),
             t_receiverUserId = Some (u_id receiverUser) \<rparr>)"
      by blast
    then show ?thesis by (simp add: Some balances_def)
  qed
qed

lemma transfer_currency_blind:
  "status (fst (transfer parseFloat st userId (body \<lparr> b_currency := c \<rparr>)))
     = status (fst (transfer parseFloat st userId body)) \<and>
   balances (snd (transfer parseFloat st userId (body \<lparr> b_currency := c \<rparr>)))
     = balances (snd (transfer parseFloat st userId body))"
proof (cases "\<exists>receiverUser sw. transfer_passes parseFloat st userId body receiverUser sw")
  case False
  then show ?thesis by (simp add: transfer_fails_currency)
next
  case True
  then obtain receiverUser sw where p: "transfer_passes parseFloat st userId body receiverUser sw"
    by blast
  then have p': "transfer_passes parseFloat st userId (body \<lparr> b_currency := c \<rparr>) receiverUser sw"
    by simp
  show ?thesis
    using transfer_passes_balances [OF p] transfer_passes_balances [OF p']
    by (simp split: option.splits)
qed

text \<open>
  C10. No operation changes the identifier, owner or currency of an existing wallet:
  the wallets of the store before are, with these three fields, a prefix of the wallets
  after. The request's currency decides neither the status of the answer nor any
  balance: another currency in the same request gives the same status and balances.
\<close>

theorem currency_never_changes:
  "prefix (wallet_keys st) (wallet_keys (snd (getWallet st userId))) \<and>
   prefix (wallet_keys st) (wallet_keys (snd (deposit parseFloat st userId body))) \<and>
   prefix (wallet_keys st) (wallet_keys (snd (withdraw parseFloat st userId body))) \<and>
   prefix (wallet_keys st) (wallet_keys (snd (transfer parseFloat st userId body))) \<and>
   status (fst (deposit parseFloat st userId (body \<lparr> b_currency := c \<rparr>)))
     = status (fst (deposit parseFloat st userId body)) \<and>
   balances (snd (deposit parseFloat st userId (body \<lparr> b_currency := c \<rparr>)))
     = balances (snd (deposit parseFloat st userId body)) \<and>
   status (fst (withdraw parseFloat st userId (body \<lparr> b_currency := c \<rparr>)))
     = status (fst (withdraw parseFloat st userId body)) \<and>
   balances (snd (withdraw parseFloat st userId (body \<lparr> b_currency := c \<rparr>)))
     = balances (snd (withdraw parseFloat st userId body)) \<and>
   status (fst (transfer parseFloat st userId (body \<lparr> b_currency := c \<rparr>)))
     = status (fst (transfer parseFloat st userId body)) \<and>
   balances (snd (transfer parseFloat st userId (body \<lparr> b_currency := c \<rparr>)))
     = balances (snd (transfer parseFloat st userId body))"
  by (simp add: getWallet_keys deposit_keys withdraw_keys transfer_keys
        deposit_currency_blind withdraw_currency_blind transfer_currency_blind)

theorem currency_never_changes_witness:
  "wallet_keys ex_store = [(0, 11, ''USD'')] \<and>
   prefix [(0, 11, ''USD'')]
     (wallet_keys (snd (deposit ex_parseFloat ex_store 11
                          (ex_body (JNum (Fin 300)) ''(415) 555-0100'')))) \<and>
   prefix [(0, 11, ''USD'')]
     (wallet_keys (snd (withdraw ex_parseFloat ex_store 11
                          (ex_body (JNum (Fin 300)) ''(415) 555-0100'')))) \<and>
   prefix [(0, 11, ''USD'')]
     (wallet_keys (snd (transfer ex_parseFloat ex_store 11
                          (ex_body (JNum (Fin 300)) ''(415) 555-0100'')))) \<and>
   status (fst (withdraw ex_parseFloat ex_store 11
                  ((ex_body (JNum (Fin 300)) ''(415) 555-0100'') \<lparr> b_currency := Some ''JPY'' \<rparr>)))
     = status (fst (withdraw ex_parseFloat ex_store 11
                      (ex_body (JNum (Fin 300)) ''(415) 555-0100'')))"
proof -
  have k: "wallet_keys ex_store = [(0, 11, ''USD'')]"
    by (simp add: wallet_keys_def ex_store_def)
  show ?thesis
    using k currency_never_changes [of ex_store 11 ex_parseFloat
        "ex_body (JNum (Fin 300)) ''(415) 555-0100''" "Some ''JPY''"]
    by simp
qed

end
